theory Spec2Isabelle
  imports Complex_Main "HOL-Library.AList"
begin

section \<open>JavaScript values\<close>

text \<open>
  A JavaScript string is a sequence of UTF-16 code units; a code unit is modelled as a
  natural number. \<open>lit\<close> embeds the ASCII string literals of the source.
\<close>

type_synonym jsstring = "nat list"

definition lit :: "string \<Rightarrow> jsstring" where
  "lit s = map of_char s"

text \<open>
  Numbers: the handlers only test a number for truthiness and for being NaN, and echo it
  back, so a finite number is kept as the rational it denotes (negative zero is zero).
\<close>

datatype jsnumber = NaN | PosInfinity | NegInfinity | Finite rat

text \<open>
  Values as they reach the handlers (parsed JSON, query strings) and as they are handed to
  \<open>res.json\<close>. An object is an association list in insertion order; reading a
  property that is absent gives \<open>undefined\<close>.
\<close>

datatype json =
    JUndefined
  | JNull
  | JBool bool
  | JNum jsnumber
  | JStr jsstring
  | JArr "json list"
  | JObj "(jsstring \<times> json) list"

type_synonym obj = "(jsstring \<times> json) list"

definition str :: "string \<Rightarrow> json" where
  "str s = JStr (lit s)"

text \<open>An object literal \<open>{ k1: v1, ..., kn: vn }\<close> with distinct literal keys.\<close>

definition object :: "(string \<times> json) list \<Rightarrow> obj" where
  "object kvs = map (\<lambda>(k, v). (lit k, v)) kvs"

text \<open>Property read \<open>o.k\<close>.\<close>

definition getProp :: "obj \<Rightarrow> string \<Rightarrow> json" where
  "getProp ob k = (case map_of ob (lit k) of None \<Rightarrow> JUndefined | Some v \<Rightarrow> v)"

text \<open>Property write \<open>o[k] = v\<close>: an existing key keeps its place.\<close>

definition assign :: "jsstring \<Rightarrow> json \<Rightarrow> obj \<Rightarrow> obj" where
  "assign k v ob = AList.update k v ob"

text \<open>Object spread \<open>{ ...src }\<close>: the properties of \<open>src\<close> are written in order
  into a fresh object.\<close>

definition spread :: "obj \<Rightarrow> obj" where
  "spread src = fold (\<lambda>(k, v) acc. assign k v acc) src []"

text \<open>\<open>!v\<close> is true exactly for the falsy values.\<close>

fun falsy :: "json \<Rightarrow> bool" where
  "falsy JUndefined = True"
| "falsy JNull = True"
| "falsy (JBool b) = (\<not> b)"
| "falsy (JNum n) = (n = NaN \<or> n = Finite 0)"
| "falsy (JStr s) = (s = [])"
| "falsy (JArr xs) = False"
| "falsy (JObj kvs) = False"

fun typeof :: "json \<Rightarrow> string" where
  "typeof JUndefined = ''undefined''"
| "typeof JNull = ''object''"
| "typeof (JBool b) = ''boolean''"
| "typeof (JNum n) = ''number''"
| "typeof (JStr s) = ''string''"
| "typeof (JArr xs) = ''object''"
| "typeof (JObj kvs) = ''object''"

text \<open>\<open>a ?? b\<close> and \<open>a || b\<close>.\<close>

definition nullish :: "json \<Rightarrow> json \<Rightarrow> json" where
  "nullish a b = (if a = JUndefined \<or> a = JNull then b else a)"

definition or_else :: "json \<Rightarrow> json \<Rightarrow> json" where
  "or_else a b = (if falsy a then b else a)"

text \<open>
  \<open>String.prototype.trim\<close> removes the ECMAScript white space and line terminator code
  units from both ends.
\<close>

definition isWhiteSpace :: "nat \<Rightarrow> bool" where
  "isWhiteSpace c =
     (c \<in> set [9, 10, 11, 12, 13, 32, 160, 5760, 8232, 8233, 8239, 8287, 12288, 65279]
      \<or> (8192 \<le> c \<and> c \<le> 8202))"

definition trim :: "jsstring \<Rightarrow> jsstring" where
  "trim s = rev (dropWhile isWhiteSpace (rev (dropWhile isWhiteSpace s)))"

text \<open>The method call \<open>v.trim()\<close>: a TypeError (\<open>None\<close>) unless \<open>v\<close> is a string.\<close>

fun method_trim :: "json \<Rightarrow> jsstring option" where
  "method_trim (JStr s) = Some (trim s)"
| "method_trim v = None"

text \<open>Decimal rendering of a non-negative integer, as in \<open>"list-" + Date.now()\<close>.\<close>

fun decimal :: "nat \<Rightarrow> jsstring" where
  "decimal n = (if n < 10 then [48 + n] else decimal (n div 10) @ [48 + n mod 10])"

declare decimal.simps [simp del]

section \<open>Requests and responses\<close>

record user =
  uuIdentity :: jsstring
  profiles :: "jsstring list"

text \<open>
  A request as a handler sees it: \<open>req.user\<close> (set by the authentication middleware),
  \<open>req.body\<close> as \<open>express.json()\<close> leaves it, and the parsed query string. The
  body is the parsed JSON object, or \<open>undefined\<close> (\<open>None\<close>) when the request carried
  no JSON body and the body parser left the property unset, as Express 5 does. The values
  of a parsed query are strings, arrays and objects.
\<close>

record request =
  req_user :: user
  req_body :: "obj option"
  req_query :: obj

text \<open>What \<open>res.status(s).json(b)\<close> sends; \<open>res.json(b)\<close> sends status 200.\<close>

record response =
  status :: nat
  json_body :: obj

definition res_status_json :: "nat \<Rightarrow> obj \<Rightarrow> response" where
  "res_status_json s b = \<lparr>status = s, json_body = b\<rparr>"

definition res_json :: "obj \<Rightarrow> response" where
  "res_json b = res_status_json 200 b"

text \<open>
  An exception that leaves a handler (a property read on an undefined body, a conversion
  that throws) reaches the default error handler of Express, which answers 500 with a
  page that is not a JSON envelope.
\<close>

definition uncaught_TypeError :: response where
  "uncaught_TypeError = \<lparr>status = 500, json_body = []\<rparr>"

section \<open>The in-memory (mock) server\<close>

definition PROFILES_AUTHORITIES :: jsstring where
  "PROFILES_AUTHORITIES = lit ''Authorities''"

definition PROFILES_USER :: jsstring where
  "PROFILES_USER = lit ''User''"

definition PROFILES_OWNER :: jsstring where
  "PROFILES_OWNER = lit ''ShoppingListOwner''"

definition PROFILES_MEMBER :: jsstring where
  "PROFILES_MEMBER = lit ''ShoppingListMember''"

definition AWID :: json where
  "AWID = str ''shoppingListApp''"

text \<open>The mock authentication middleware: the same user for every request.\<close>

definition mock_auth :: "request \<Rightarrow> request" where
  "mock_auth req =
     req\<lparr>req_user := \<lparr>uuIdentity = lit ''uu5:1234-5678'',
                        profiles = [PROFILES_USER, PROFILES_OWNER]\<rparr>\<rparr>"

definition hasAnyProfile :: "request \<Rightarrow> jsstring list \<Rightarrow> bool" where
  "hasAnyProfile req requiredProfiles =
     list_ex (\<lambda>p. p \<in> set (profiles (req_user req))) requiredProfiles"

text \<open>\<open>buildError(code, message, paramMap = {})\<close>; \<open>None\<close> is an omitted argument.\<close>

definition buildError :: "string \<Rightarrow> string \<Rightarrow> obj option \<Rightarrow> json" where
  "buildError code message paramMap =
     JObj (object [(''type'', str ''error''),
                   (''message'', str message),
                   (''paramMap'', JObj (case paramMap of None \<Rightarrow> [] | Some p \<Rightarrow> p))])"

text \<open>\<open>buildResponse(dtoOut = {}, errorMap = {})\<close> of the mock server.\<close>

definition mock_buildResponse :: "obj option \<Rightarrow> obj option \<Rightarrow> obj" where
  "mock_buildResponse dtoOut errorMap =
     assign (lit ''uuAppErrorMap'')
       (JObj (case errorMap of None \<Rightarrow> [] | Some e \<Rightarrow> e))
       (spread (case dtoOut of None \<Rightarrow> [] | Some d \<Rightarrow> d))"

text \<open>\<open>buildResponse(data, errorMap = {})\<close> of the database-backed server.\<close>

definition mongo_buildResponse :: "obj \<Rightarrow> obj option \<Rightarrow> obj" where
  "mongo_buildResponse data errorMap =
     assign (lit ''uuAppErrorMap'')
       (JObj (case errorMap of None \<Rightarrow> [] | Some e \<Rightarrow> e))
       (spread data)"

section \<open>Handlers of the mock server\<close>

text \<open>
  Each handler is a function of the request (and of what it reads from the environment:
  the clock for \<open>Date.now()\<close>, the built-in \<open>Number\<close> conversion). \<open>errorMap\<close> starts
  as the empty object and is extended by property writes, as in the source. The handlers
  have no \<open>try\<close>: the first property read on an undefined \<open>dtoIn\<close> throws, and nothing
  catches it.
\<close>

definition mock_create :: "nat \<Rightarrow> request \<Rightarrow> response" where
  "mock_create now req =
     (if \<not> hasAnyProfile req [PROFILES_USER, PROFILES_AUTHORITIES] then
        res_status_json 403 (mock_buildResponse (Some [])
          (Some (assign (lit ''shoppingList/create/unauthorized'')
             (buildError ''shoppingList/create/unauthorized''
                ''User is not authorized to create a shopping list.'' None) [])))
      else case req_body req of None \<Rightarrow> uncaught_TypeError | Some dtoIn \<Rightarrow>
      if falsy (getProp dtoIn ''name'') \<or> typeof (getProp dtoIn ''name'') \<noteq> ''string''
              \<or> method_trim (getProp dtoIn ''name'') = Some [] then
        res_status_json 400 (mock_buildResponse (Some [])
          (Some (assign (lit ''shoppingList/create/invalidName'')
             (buildError ''shoppingList/create/invalidName''
                ''name is required and must be a non-empty string.''
                (Some (object [(''name'', getProp dtoIn ''name'')]))) [])))
      else
        (case method_trim (getProp dtoIn ''name'') of
           None \<Rightarrow> uncaught_TypeError
         | Some trimmed \<Rightarrow>
             res_json (mock_buildResponse
               (Some (object [(''awid'', AWID),
                              (''id'', JStr (lit ''list-'' @ decimal now)),
                              (''name'', JStr trimmed),
                              (''state'', str ''active''),
                              (''ownerUuIdentity'', JStr (uuIdentity (req_user req))),
                              (''members'', JArr []),
                              (''items'', JArr [])]))
               None)))"

definition mock_get :: "request \<Rightarrow> response" where
  "mock_get req =
     (let dtoIn = req_query req in
      if falsy (getProp dtoIn ''id'') then
        res_status_json 400 (mock_buildResponse (Some [])
          (Some (assign (lit ''shoppingList/get/invalidId'')
             (buildError ''shoppingList/get/invalidId'' ''id is required.''
                (Some (object [(''id'', getProp dtoIn ''id'')]))) [])))
      else
        res_json (mock_buildResponse
          (Some (object [(''awid'', AWID),
                         (''id'', getProp dtoIn ''id''),
                         (''name'', str ''Example list''),
                         (''state'', str ''active''),
                         (''ownerUuIdentity'', str ''uu5:1234-5678''),
                         (''members'', JArr
                            [JObj (object [(''uuIdentity'', str ''uu5:1234-5678''),
                                           (''role'', str ''owner'')]),
                             JObj (object [(''uuIdentity'', str ''uu5:8765-4321''),
                                           (''role'', str ''member'')])]),
                         (''items'', JArr
                            [JObj (object [(''id'', str ''i1''), (''name'', str ''Milk''),
                                           (''quantity'', JNum (Finite 2)),
                                           (''unit'', str ''pcs''),
                                           (''resolved'', JBool False)]),
                             JObj (object [(''id'', str ''i2''), (''name'', str ''Bread''),
                                           (''quantity'', JNum (Finite 1)),
                                           (''unit'', str ''pcs''),
                                           (''resolved'', JBool True)])])]))
          None))"

text \<open>
  \<open>Number\<close> is the built-in conversion. It returns a number, or throws a TypeError
  (\<open>None\<close>) on a value that has no primitive, such as the object that the extended query
  parser of Express 4 makes of \<open>?pageIndex[toString]=x\<close>. The handler asks whether the
  results are NaN.
\<close>

definition mock_list :: "(json \<Rightarrow> jsnumber option) \<Rightarrow> request \<Rightarrow> response" where
  "mock_list Number req =
     (let dtoIn = req_query req in
      case Number (nullish (getProp dtoIn ''pageIndex'') (JNum (Finite 0))) of
        None \<Rightarrow> uncaught_TypeError
      | Some pageIndex \<Rightarrow>
      case Number (nullish (getProp dtoIn ''pageSize'') (JNum (Finite 50))) of
        None \<Rightarrow> uncaught_TypeError
      | Some pageSize \<Rightarrow>
      if pageIndex = NaN \<or> pageSize = NaN then
        res_status_json 400 (mock_buildResponse (Some [])
          (Some (assign (lit ''shoppingList/list/invalidPageInfo'')
             (buildError ''shoppingList/list/invalidPageInfo''
                ''pageIndex and pageSize must be numbers.''
                (Some (object [(''pageIndex'', getProp dtoIn ''pageIndex''),
                               (''pageSize'', getProp dtoIn ''pageSize'')]))) [])))
      else
        res_json (mock_buildResponse
          (Some (object [(''itemList'', JArr
                            [JObj (object [(''id'', str ''list-1''),
                                           (''name'', str ''Saturday Groceries''),
                                           (''state'', str ''active''),
                                           (''ownerUuIdentity'', str ''uu5:1234-5678''),
                                           (''itemCount'', JNum (Finite 5))]),
                             JObj (object [(''id'', str ''list-2''),
                                           (''name'', str ''Hiking Trip''),
                                           (''state'', str ''active''),
                                           (''ownerUuIdentity'', str ''uu5:4444-1111''),
                                           (''itemCount'', JNum (Finite 3))])]),
                         (''pageInfo'', JObj (object [(''pageIndex'', JNum pageIndex),
                                                      (''pageSize'', JNum pageSize),
                                                      (''total'', JNum (Finite 2))]))]))
          None))"

text \<open>The validation block of the mock update: both checks run.\<close>

definition mock_update_validate :: "obj \<Rightarrow> obj" where
  "mock_update_validate dtoIn =
     (let errorMap1 =
            (if falsy (getProp dtoIn ''id'') then
               assign (lit ''shoppingList/update/invalidId'')
                 (buildError ''shoppingList/update/invalidId'' ''id is required.''
                    (Some (object [(''id'', getProp dtoIn ''id'')]))) []
             else []);
          errorMap2 =
            (if falsy (getProp dtoIn ''name'')
                \<or> typeof (getProp dtoIn ''name'') \<noteq> ''string''
                \<or> method_trim (getProp dtoIn ''name'') = Some [] then
               assign (lit ''shoppingList/update/invalidName'')
                 (buildError ''shoppingList/update/invalidName''
                    ''name is required and must be a non-empty string.''
                    (Some (object [(''name'', getProp dtoIn ''name'')]))) errorMap1
             else errorMap1)
      in errorMap2)"

definition mock_update :: "request \<Rightarrow> response" where
  "mock_update req =
     (if \<not> hasAnyProfile req [PROFILES_OWNER, PROFILES_AUTHORITIES] then
        res_status_json 403 (mock_buildResponse (Some [])
          (Some (assign (lit ''shoppingList/update/unauthorized'')
             (buildError ''shoppingList/update/unauthorized''
                ''User is not authorized to update the shopping list.'' None) [])))
      else case req_body req of None \<Rightarrow> uncaught_TypeError | Some dtoIn \<Rightarrow>
        (let errorMap = mock_update_validate dtoIn in
         if length errorMap > 0 then
           res_status_json 400 (mock_buildResponse (Some []) (Some errorMap))
         else
           (case method_trim (getProp dtoIn ''name'') of
              None \<Rightarrow> uncaught_TypeError
            | Some trimmed \<Rightarrow>
                res_json (mock_buildResponse
                  (Some (object [(''awid'', AWID),
                                 (''id'', getProp dtoIn ''id''),
                                 (''name'', JStr trimmed),
                                 (''state'', str ''active''),
                                 (''ownerUuIdentity'', JStr (uuIdentity (req_user req)))]))
                  None))))"

definition mock_delete :: "request \<Rightarrow> response" where
  "mock_delete req =
     (if \<not> hasAnyProfile req [PROFILES_OWNER, PROFILES_AUTHORITIES] then
        res_status_json 403 (mock_buildResponse (Some [])
          (Some (assign (lit ''shoppingList/delete/unauthorized'')
             (buildError ''shoppingList/delete/unauthorized''
                ''User is not authorized to delete the shopping list.'' None) [])))
      else case req_body req of None \<Rightarrow> uncaught_TypeError | Some dtoIn \<Rightarrow>
      if falsy (getProp dtoIn ''id'') then
        res_status_json 400 (mock_buildResponse (Some [])
          (Some (assign (lit ''shoppingList/delete/invalidId'')
             (buildError ''shoppingList/delete/invalidId'' ''id is required.''
                (Some (object [(''id'', getProp dtoIn ''id'')]))) [])))
      else
        res_json (mock_buildResponse
          (Some (object [(''awid'', AWID),
                         (''id'', getProp dtoIn ''id''),
                         (''deleted'', JBool True)]))
          None))"

definition mock_addMember :: "request \<Rightarrow> response" where
  "mock_addMember req =
     (if \<not> hasAnyProfile req [PROFILES_OWNER, PROFILES_AUTHORITIES] then
        res_status_json 403 (mock_buildResponse (Some [])
          (Some (assign (lit ''shoppingList/addMember/unauthorized'')
             (buildError ''shoppingList/addMember/unauthorized''
                ''User is not authorized to add members.'' None) [])))
      else case req_body req of None \<Rightarrow> uncaught_TypeError | Some dtoIn \<Rightarrow>
        (let errorMap1 =
               (if falsy (getProp dtoIn ''listId'') then
                  assign (lit ''shoppingList/addMember/invalidListId'')
                    (buildError ''shoppingList/addMember/invalidListId''
                       ''listId is required.''
                       (Some (object [(''listId'', getProp dtoIn ''listId'')]))) []
                else []);
             errorMap2 =
               (if falsy (getProp dtoIn ''uuIdentity'')
                   \<or> typeof (getProp dtoIn ''uuIdentity'') \<noteq> ''string'' then
                  assign (lit ''shoppingList/addMember/invalidUuIdentity'')
                    (buildError ''shoppingList/addMember/invalidUuIdentity''
                       ''uuIdentity is required and must be a string.''
                       (Some (object [(''uuIdentity'', getProp dtoIn ''uuIdentity'')])))
                    errorMap1
                else errorMap1)
         in
         if length errorMap2 > 0 then
           res_status_json 400 (mock_buildResponse (Some []) (Some errorMap2))
         else
           res_json (mock_buildResponse
             (Some (object [(''awid'', AWID),
                            (''listId'', getProp dtoIn ''listId''),
                            (''member'', JObj (object
                               [(''uuIdentity'', getProp dtoIn ''uuIdentity''),
                                (''role'', or_else (getProp dtoIn ''role'')
                                             (str ''member''))]))]))
             None)))"

definition mock_removeMember :: "request \<Rightarrow> response" where
  "mock_removeMember req =
     (if \<not> hasAnyProfile req [PROFILES_OWNER, PROFILES_AUTHORITIES] then
        res_status_json 403 (mock_buildResponse (Some [])
          (Some (assign (lit ''shoppingList/removeMember/unauthorized'')
             (buildError ''shoppingList/removeMember/unauthorized''
                ''User is not authorized to remove members.'' None) [])))
      else case req_body req of None \<Rightarrow> uncaught_TypeError | Some dtoIn \<Rightarrow>
        (let errorMap1 =
               (if falsy (getProp dtoIn ''listId'') then
                  assign (lit ''shoppingList/removeMember/invalidListId'')
                    (buildError ''shoppingList/removeMember/invalidListId''
                       ''listId is required.''
                       (Some (object [(''listId'', getProp dtoIn ''listId'')]))) []
                else []);
             errorMap2 =
               (if falsy (getProp dtoIn ''uuIdentity'') then
                  assign (lit ''shoppingList/removeMember/invalidUuIdentity'')
                    (buildError ''shoppingList/removeMember/invalidUuIdentity''
                       ''uuIdentity is required.''
                       (Some (object [(''uuIdentity'', getProp dtoIn ''uuIdentity'')])))
                    errorMap1
                else errorMap1)
         in
         if length errorMap2 > 0 then
           res_status_json 400 (mock_buildResponse (Some []) (Some errorMap2))
         else
           res_json (mock_buildResponse
             (Some (object [(''awid'', AWID),
                            (''listId'', getProp dtoIn ''listId''),
                            (''removedUuIdentity'', getProp dtoIn ''uuIdentity'')]))
             None)))"

definition mock_leave :: "request \<Rightarrow> response" where
  "mock_leave req =
     (case req_body req of None \<Rightarrow> uncaught_TypeError | Some dtoIn \<Rightarrow>
      if falsy (getProp dtoIn ''listId'') then
        res_status_json 400 (mock_buildResponse (Some [])
          (Some (assign (lit ''shoppingList/leave/invalidListId'')
             (buildError ''shoppingList/leave/invalidListId'' ''listId is required.''
                (Some (object [(''listId'', getProp dtoIn ''listId'')]))) [])))
      else
        res_json (mock_buildResponse
          (Some (object [(''awid'', AWID),
                         (''listId'', getProp dtoIn ''listId''),
                         (''leftUuIdentity'', JStr (uuIdentity (req_user req)))]))
          None))"

text \<open>The routes of the mock server; every route runs behind the middleware.\<close>

datatype mock_command =
    MockCreate | MockGet | MockList | MockUpdate | MockDelete
  | MockAddMember | MockRemoveMember | MockLeave

fun mock_handler :: "mock_command \<Rightarrow> nat \<Rightarrow> (json \<Rightarrow> jsnumber option) \<Rightarrow> request \<Rightarrow> response" where
  "mock_handler MockCreate now Number req = mock_create now req"
| "mock_handler MockGet now Number req = mock_get req"
| "mock_handler MockList now Number req = mock_list Number req"
| "mock_handler MockUpdate now Number req = mock_update req"
| "mock_handler MockDelete now Number req = mock_delete req"
| "mock_handler MockAddMember now Number req = mock_addMember req"
| "mock_handler MockRemoveMember now Number req = mock_removeMember req"
| "mock_handler MockLeave now Number req = mock_leave req"

definition mock_app :: "mock_command \<Rightarrow> nat \<Rightarrow> (json \<Rightarrow> jsnumber option) \<Rightarrow> request \<Rightarrow> response" where
  "mock_app c now Number req = mock_handler c now Number (mock_auth req)"

section \<open>The document model and the store\<close>

text \<open>The Mongoose schemas of \<open>models/ShoppingList.js\<close>.\<close>

record item =
  item_id :: jsstring
  item_name :: jsstring
  item_quantity :: jsnumber
  item_unit :: jsstring
  item_resolved :: bool

record member =
  member_uuIdentity :: jsstring
  member_role :: jsstring

record shoppingList =
  list_name :: jsstring
  list_state :: jsstring
  list_ownerUuIdentity :: jsstring
  list_members :: "member list"
  list_items :: "item list"
  list_createdAt :: nat
  list_updatedAt :: nat

definition state_enum :: "jsstring list" where
  "state_enum = [lit ''active'', lit ''archived'']"

definition role_enum :: "jsstring list" where
  "role_enum = [lit ''owner'', lit ''member'']"

text \<open>The schema validators: \<open>required\<close> strings are non-empty, \<open>enum\<close> strings are
  among the listed values.\<close>

definition validate_item :: "item \<Rightarrow> bool" where
  "validate_item it = (item_name it \<noteq> [])"

definition validate_member :: "member \<Rightarrow> bool" where
  "validate_member m = (member_uuIdentity m \<noteq> [] \<and> member_role m \<in> set role_enum)"

definition validate_shoppingList :: "shoppingList \<Rightarrow> bool" where
  "validate_shoppingList l =
     (list_name l \<noteq> [] \<and> list_state l \<in> set state_enum \<and> list_ownerUuIdentity l \<noteq> []
      \<and> list_all validate_member (list_members l) \<and> list_all validate_item (list_items l))"

text \<open>
  The collection: documents under their \<open>_id\<close> (in its canonical string form), in
  insertion order.
\<close>

type_synonym db = "(jsstring \<times> shoppingList) list"

text \<open>
  What the handlers use of Mongoose: \<open>isValidObjectId\<close>, and the cast of a string to
  an ObjectId (\<open>None\<close> when the string cannot be cast), given by its canonical form.
\<close>

record mongoose =
  isValidObjectId :: "jsstring \<Rightarrow> bool"
  castObjectId :: "jsstring \<Rightarrow> jsstring option"

text \<open>
  A store call either rejects or returns. \<open>fault\<close> says that the call rejects for a
  reason outside the handler (the connection, the server); a call that rejects leaves the
  collection as it was.
\<close>

datatype store_error = ConnectionError | CastError | ValidationError | DuplicateKey

text \<open>\<open>ShoppingList.find().lean()\<close>\<close>

definition ShoppingList_find :: "bool \<Rightarrow> db \<Rightarrow> store_error + (jsstring \<times> shoppingList) list" where
  "ShoppingList_find fault d = (if fault then Inl ConnectionError else Inr d)"

text \<open>\<open>ShoppingList.findById(id).lean()\<close>: the document with its \<open>_id\<close>, or null.\<close>

definition ShoppingList_findById ::
  "mongoose \<Rightarrow> bool \<Rightarrow> db \<Rightarrow> jsstring \<Rightarrow> store_error + (jsstring \<times> shoppingList) option" where
  "ShoppingList_findById env fault d idParam =
     (if fault then Inl ConnectionError
      else case castObjectId env idParam of
             None \<Rightarrow> Inl CastError
           | Some k \<Rightarrow> Inr (map_option (\<lambda>l. (k, l)) (map_of d k)))"

text \<open>
  \<open>ShoppingList.create(doc)\<close>: the document is validated against the schema, gets the
  fresh \<open>_id\<close> and the timestamps, and is inserted; an \<open>_id\<close> that is already in the
  collection is a duplicate key.
\<close>

definition ShoppingList_create ::
  "bool \<Rightarrow> jsstring \<Rightarrow> db \<Rightarrow> shoppingList \<Rightarrow> store_error + ((jsstring \<times> shoppingList) \<times> db)" where
  "ShoppingList_create fault newId d doc =
     (if fault then Inl ConnectionError
      else if \<not> validate_shoppingList doc then Inl ValidationError
      else if newId \<in> set (map fst d) then Inl DuplicateKey
      else Inr ((newId, doc), d @ [(newId, doc)]))"

text \<open>The cast of an update value to the schema type String.\<close>

fun cast_String :: "json \<Rightarrow> jsstring option" where
  "cast_String (JStr s) = Some s"
| "cast_String v = None"

text \<open>
  \<open>ShoppingList.findByIdAndUpdate(id, updates, { new: true, runValidators: true }).lean()\<close>:
  the paths \<open>name\<close> and \<open>state\<close> of \<open>updates\<close> are cast and validated, then the
  document (if there is one) gets them and a new \<open>updatedAt\<close>; the updated document is
  returned, or null.
\<close>

definition ShoppingList_findByIdAndUpdate ::
  "mongoose \<Rightarrow> bool \<Rightarrow> nat \<Rightarrow> db \<Rightarrow> jsstring \<Rightarrow> obj
     \<Rightarrow> store_error + ((jsstring \<times> shoppingList) option \<times> db)" where
  "ShoppingList_findByIdAndUpdate env fault now d idParam updates =
     (if fault then Inl ConnectionError
      else case castObjectId env idParam of
        None \<Rightarrow> Inl CastError
      | Some k \<Rightarrow>
         (let newName = map_option cast_String (map_of updates (lit ''name''));
              newState = map_option cast_String (map_of updates (lit ''state''))
          in
          if newName = Some None \<or> newState = Some None then Inl CastError
          else if newName = Some (Some []) then Inl ValidationError
          else if (case newState of Some (Some s) \<Rightarrow> s \<notin> set state_enum | _ \<Rightarrow> False)
            then Inl ValidationError
          else
            (case map_of d k of
               None \<Rightarrow> Inr (None, d)
             | Some l \<Rightarrow>
                 (let l' = l\<lparr>list_name := (case newName of Some (Some n) \<Rightarrow> n | _ \<Rightarrow> list_name l),
                              list_state := (case newState of Some (Some s) \<Rightarrow> s | _ \<Rightarrow> list_state l),
                              list_updatedAt := now\<rparr>
                  in Inr (Some (k, l'), AList.update k l' d)))))"

text \<open>\<open>ShoppingList.findByIdAndDelete(id).lean()\<close>: the removed document, or null.\<close>

definition ShoppingList_findByIdAndDelete ::
  "mongoose \<Rightarrow> bool \<Rightarrow> db \<Rightarrow> jsstring
     \<Rightarrow> store_error + ((jsstring \<times> shoppingList) option \<times> db)" where
  "ShoppingList_findByIdAndDelete env fault d idParam =
     (if fault then Inl ConnectionError
      else case castObjectId env idParam of
        None \<Rightarrow> Inl CastError
      | Some k \<Rightarrow>
         (case map_of d k of
            None \<Rightarrow> Inr (None, d)
          | Some l \<Rightarrow> Inr (Some (k, l), AList.delete k d)))"

section \<open>Handlers of the database-backed server\<close>

definition MOCK_OWNER :: jsstring where
  "MOCK_OWNER = lit ''uu5:1234-5678''"

text \<open>Lean documents as JSON.\<close>

definition member_json :: "member \<Rightarrow> json" where
  "member_json m =
     JObj (object [(''uuIdentity'', JStr (member_uuIdentity m)),
                   (''role'', JStr (member_role m))])"

definition item_json :: "item \<Rightarrow> json" where
  "item_json it =
     JObj (object [(''name'', JStr (item_name it)),
                   (''quantity'', JNum (item_quantity it)),
                   (''unit'', JStr (item_unit it)),
                   (''resolved'', JBool (item_resolved it)),
                   (''_id'', JStr (item_id it))])"

text \<open>The \<open>dtoOut\<close> that get, create and update build from a document.\<close>

definition list_dtoOut :: "jsstring \<times> shoppingList \<Rightarrow> obj" where
  "list_dtoOut kl =
     object [(''id'', JStr (fst kl)),
             (''name'', JStr (list_name (snd kl))),
             (''state'', JStr (list_state (snd kl))),
             (''ownerUuIdentity'', JStr (list_ownerUuIdentity (snd kl))),
             (''members'', JArr (map member_json (list_members (snd kl)))),
             (''items'', JArr (map item_json (list_items (snd kl))))]"

text \<open>The \<open>catch\<close> block of a handler: status 500 and one entry \<open>.../failed\<close>.\<close>

definition failed_response :: "string \<Rightarrow> string \<Rightarrow> response" where
  "failed_response key message =
     res_status_json 500 (mongo_buildResponse []
       (Some (object [(key, JObj (object [(''type'', str ''error''),
                                          (''message'', str message)]))])))"

definition error_entry :: "string \<Rightarrow> obj \<Rightarrow> json" where
  "error_entry message paramMap =
     JObj (object [(''type'', str ''error''),
                   (''message'', str message),
                   (''paramMap'', JObj paramMap)])"

definition mongo_list :: "bool \<Rightarrow> db \<Rightarrow> response" where
  "mongo_list fault d =
     (case ShoppingList_find fault d of
        Inl err \<Rightarrow>
          failed_response ''shoppingList/list/failed''
            ''Unexpected error while listing shopping lists.''
      | Inr allLists \<Rightarrow>
          res_json (mongo_buildResponse
            (object [(''itemList'', JArr (map (\<lambda>l.
                JObj (object [(''id'', JStr (fst l)),
                              (''name'', JStr (list_name (snd l))),
                              (''state'', JStr (list_state (snd l))),
                              (''ownerUuIdentity'', JStr (list_ownerUuIdentity (snd l))),
                              (''itemCount'',
                                 JNum (Finite (of_nat (length (list_items (snd l))))))]))
                allLists))])
            None))"

definition mongo_get :: "mongoose \<Rightarrow> bool \<Rightarrow> db \<Rightarrow> jsstring \<Rightarrow> response" where
  "mongo_get env fault d idParam =
     (if \<not> isValidObjectId env idParam then
        res_status_json 400 (mongo_buildResponse []
          (Some (assign (lit ''shoppingList/get/invalidId'')
             (error_entry ''id is not a valid ObjectId.'' (object [(''id'', JStr idParam)]))
             [])))
      else
        (case ShoppingList_findById env fault d idParam of
           Inl err \<Rightarrow>
             failed_response ''shoppingList/get/failed''
               ''Unexpected error while getting shopping list.''
         | Inr None \<Rightarrow>
             res_status_json 404 (mongo_buildResponse []
               (Some (assign (lit ''shoppingList/get/notFound'')
                  (error_entry ''Shopping list not found.'' (object [(''id'', JStr idParam)]))
                  [])))
         | Inr (Some list) \<Rightarrow>
             res_json (mongo_buildResponse (list_dtoOut list) None)))"

text \<open>
  Create and update destructure \<open>req.body\<close> in their first lines, before the \<open>try\<close>
  block: on an undefined body the TypeError is not caught by the handler.
\<close>

definition mongo_create ::
  "bool \<Rightarrow> jsstring \<Rightarrow> nat \<Rightarrow> db \<Rightarrow> obj option \<Rightarrow> response \<times> db" where
  "mongo_create fault newId now d reqBody =
     (case reqBody of None \<Rightarrow> (uncaught_TypeError, d) | Some body \<Rightarrow>
      let name = getProp body ''name'' in
      if falsy name \<or> typeof name \<noteq> ''string'' \<or> method_trim name = Some [] then
        (res_status_json 400 (mongo_buildResponse []
           (Some (assign (lit ''shoppingList/create/invalidName'')
              (error_entry ''name is required and must be a non-empty string.''
                 (object [(''name'', name)]))
              []))), d)
      else
        (case method_trim name of
           None \<Rightarrow>
             (failed_response ''shoppingList/create/failed''
                ''Unexpected error while creating shopping list.'', d)
         | Some trimmed \<Rightarrow>
             (case ShoppingList_create fault newId d
                     \<lparr>list_name = trimmed,
                      list_state = lit ''active'',
                      list_ownerUuIdentity = MOCK_OWNER,
                      list_members = [\<lparr>member_uuIdentity = MOCK_OWNER,
                                        member_role = lit ''owner''\<rparr>],
                      list_items = [],
                      list_createdAt = now,
                      list_updatedAt = now\<rparr> of
                Inl err \<Rightarrow>
                  (failed_response ''shoppingList/create/failed''
                     ''Unexpected error while creating shopping list.'', d)
              | Inr (list, d') \<Rightarrow>
                  (res_status_json 201 (mongo_buildResponse (list_dtoOut list) None), d'))))"

text \<open>The validation block of update: every check runs, each failure adds its entry.\<close>

definition mongo_update_validate :: "mongoose \<Rightarrow> jsstring \<Rightarrow> obj \<Rightarrow> obj" where
  "mongo_update_validate env idParam body =
     (let name = getProp body ''name'';
          state = getProp body ''state'';
          errorMap1 =
            (if \<not> isValidObjectId env idParam then
               assign (lit ''shoppingList/update/invalidId'')
                 (error_entry ''id is not a valid ObjectId.''
                    (object [(''id'', JStr idParam)])) []
             else []);
          errorMap2 =
            (if name \<noteq> JUndefined \<and> (typeof name \<noteq> ''string'' \<or> method_trim name = Some [])
             then
               assign (lit ''shoppingList/update/invalidName'')
                 (error_entry ''name must be a non-empty string, if provided.''
                    (object [(''name'', name)])) errorMap1
             else errorMap1);
          errorMap3 =
            (if state \<noteq> JUndefined \<and> state \<notin> set [str ''active'', str ''archived''] then
               assign (lit ''shoppingList/update/invalidState'')
                 (error_entry ''state must be 'active' or 'archived', if provided.''
                    (object [(''state'', state)])) errorMap2
             else errorMap2)
      in errorMap3)"

text \<open>The \<open>try\<close> block of update, with its \<open>catch\<close>.\<close>

definition mongo_update_try ::
  "mongoose \<Rightarrow> bool \<Rightarrow> nat \<Rightarrow> db \<Rightarrow> jsstring \<Rightarrow> obj \<Rightarrow> obj \<Rightarrow> response \<times> db" where
  "mongo_update_try env fault now d idParam body errorMap =
     (let name = getProp body ''name'';
          state = getProp body ''state''
      in
      case (if name \<noteq> JUndefined
            then map_option (\<lambda>t. assign (lit ''name'') (JStr t) []) (method_trim name)
            else Some []) of
        None \<Rightarrow>
          (failed_response ''shoppingList/update/failed''
             ''Unexpected error while updating shopping list.'', d)
      | Some updates1 \<Rightarrow>
          (let updates2 =
                 (if state \<noteq> JUndefined then assign (lit ''state'') state updates1
                  else updates1)
           in
           case ShoppingList_findByIdAndUpdate env fault now d idParam updates2 of
             Inl err \<Rightarrow>
               (failed_response ''shoppingList/update/failed''
                  ''Unexpected error while updating shopping list.'', d)
           | Inr (None, d') \<Rightarrow>
               (res_status_json 404 (mongo_buildResponse []
                  (Some (assign (lit ''shoppingList/update/notFound'')
                     (error_entry ''Shopping list not found.''
                        (object [(''id'', JStr idParam)]))
                     errorMap))), d')
           | Inr (Some list, d') \<Rightarrow>
               (res_json (mongo_buildResponse (list_dtoOut list) None), d')))"

definition mongo_update ::
  "mongoose \<Rightarrow> bool \<Rightarrow> nat \<Rightarrow> db \<Rightarrow> jsstring \<Rightarrow> obj option \<Rightarrow> response \<times> db" where
  "mongo_update env fault now d idParam reqBody =
     (case reqBody of None \<Rightarrow> (uncaught_TypeError, d) | Some body \<Rightarrow>
      let errorMap = mongo_update_validate env idParam body in
      if length errorMap > 0 then
        (res_status_json 400 (mongo_buildResponse [] (Some errorMap)), d)
      else mongo_update_try env fault now d idParam body errorMap)"

definition mongo_delete :: "mongoose \<Rightarrow> bool \<Rightarrow> db \<Rightarrow> jsstring \<Rightarrow> response \<times> db" where
  "mongo_delete env fault d idParam =
     (if \<not> isValidObjectId env idParam then
        (res_status_json 400 (mongo_buildResponse []
           (Some (assign (lit ''shoppingList/delete/invalidId'')
              (error_entry ''id is not a valid ObjectId.'' (object [(''id'', JStr idParam)]))
              []))), d)
      else
        (case ShoppingList_findByIdAndDelete env fault d idParam of
           Inl err \<Rightarrow>
             (failed_response ''shoppingList/delete/failed''
                ''Unexpected error while deleting shopping list.'', d)
         | Inr (None, d') \<Rightarrow>
             (res_status_json 404 (mongo_buildResponse []
                (Some (assign (lit ''shoppingList/delete/notFound'')
                   (error_entry ''Shopping list not found.'' (object [(''id'', JStr idParam)]))
                   []))), d')
         | Inr (Some list, d') \<Rightarrow>
             (res_json (mongo_buildResponse
                (object [(''id'', JStr (fst list)), (''deleted'', JBool True)]) None), d')))"

text \<open>
  The routes of the database-backed server. A request carries the path parameter and
  \<open>req.body\<close> (an object, or undefined); it carries no caller and no role. The
  environment of a request is Mongoose, whether the store call rejects, the \<open>_id\<close> the
  store would give a new document, and the clock.
\<close>

datatype mongo_command = MongoList | MongoGet | MongoCreate | MongoUpdate | MongoDelete

record mongo_env =
  env_mongoose :: mongoose
  env_fault :: bool
  env_newId :: jsstring
  env_now :: nat

fun mongo_handler ::
  "mongo_command \<Rightarrow> mongo_env \<Rightarrow> db \<Rightarrow> jsstring \<Rightarrow> obj option \<Rightarrow> response \<times> db" where
  "mongo_handler MongoList e d idParam body = (mongo_list (env_fault e) d, d)"
| "mongo_handler MongoGet e d idParam body =
     (mongo_get (env_mongoose e) (env_fault e) d idParam, d)"
| "mongo_handler MongoCreate e d idParam body =
     mongo_create (env_fault e) (env_newId e) (env_now e) d body"
| "mongo_handler MongoUpdate e d idParam body =
     mongo_update (env_mongoose e) (env_fault e) (env_now e) d idParam body"
| "mongo_handler MongoDelete e d idParam body =
     mongo_delete (env_mongoose e) (env_fault e) d idParam"

section \<open>The response envelope\<close>

definition is2xx :: "nat \<Rightarrow> bool" where
  "is2xx s = (200 \<le> s \<and> s < 300)"

text \<open>The error map of a response: the object under \<open>uuAppErrorMap\<close>, if there is one.\<close>

definition errorMapOf :: "response \<Rightarrow> obj option" where
  "errorMapOf r =
     (case map_of (json_body r) (lit ''uuAppErrorMap'') of
        Some (JObj em) \<Rightarrow> Some em
      | _ \<Rightarrow> None)"

definition errorKeys :: "response \<Rightarrow> jsstring list" where
  "errorKeys r = (case errorMapOf r of None \<Rightarrow> [] | Some em \<Rightarrow> map fst em)"


section \<open>Vocabulary of the claims\<close>

text \<open>
  The interface table: the roles a command of the mock server requires (\<open>None\<close> for a
  command without an authorization gate), and the name of the command in its error keys.
\<close>

fun spec_requiredProfiles :: "mock_command \<Rightarrow> jsstring list option" where
  "spec_requiredProfiles MockCreate = Some [PROFILES_USER, PROFILES_AUTHORITIES]"
| "spec_requiredProfiles MockGet = None"
| "spec_requiredProfiles MockList = None"
| "spec_requiredProfiles MockUpdate = Some [PROFILES_OWNER, PROFILES_AUTHORITIES]"
| "spec_requiredProfiles MockDelete = Some [PROFILES_OWNER, PROFILES_AUTHORITIES]"
| "spec_requiredProfiles MockAddMember = Some [PROFILES_OWNER, PROFILES_AUTHORITIES]"
| "spec_requiredProfiles MockRemoveMember = Some [PROFILES_OWNER, PROFILES_AUTHORITIES]"
| "spec_requiredProfiles MockLeave = None"

fun spec_commandName :: "mock_command \<Rightarrow> string" where
  "spec_commandName MockCreate = ''create''"
| "spec_commandName MockGet = ''get''"
| "spec_commandName MockList = ''list''"
| "spec_commandName MockUpdate = ''update''"
| "spec_commandName MockDelete = ''delete''"
| "spec_commandName MockAddMember = ''addMember''"
| "spec_commandName MockRemoveMember = ''removeMember''"
| "spec_commandName MockLeave = ''leave''"










text \<open>The data-model invariant on the state of a stored list.\<close>

definition spec_state_in_enum :: "jsstring \<times> shoppingList \<Rightarrow> bool" where
  "spec_state_in_enum kl = (list_state (snd kl) \<in> set state_enum)"

section \<open>Sample data\<close>

text \<open>
  Concrete requests and store contents at which the theorems below are instantiated:
  the user the mock middleware logs in, a 24-digit identifier, a Mongoose whose
  identifiers are the strings of length 24, and a collection holding one list.
\<close>

definition sample_user :: user where
  "sample_user = \<lparr>uuIdentity = lit ''uu5:1234-5678'', profiles = [PROFILES_USER, PROFILES_OWNER]\<rparr>"

definition sample_request :: "obj \<Rightarrow> obj \<Rightarrow> request" where
  "sample_request b q = \<lparr>req_user = sample_user, req_body = Some b, req_query = q\<rparr>"

definition sample_member_request :: request where
  "sample_member_request =
     \<lparr>req_user = \<lparr>uuIdentity = lit ''uu5:0000-0001'', profiles = [PROFILES_MEMBER]\<rparr>,
      req_body = Some (object [(''name'', str '''')]), req_query = []\<rparr>"


text \<open>
  The built-in \<open>Number\<close> on the values the examples convert: a number is itself; an
  object parsed from a query string has no callable property, so the conversion throws
  when the object has a property \<open>toString\<close> of its own and gives NaN otherwise. No
  example converts another value.
\<close>

definition sample_Number :: "json \<Rightarrow> jsnumber option" where
  "sample_Number v =
     (case v of
        JNum n \<Rightarrow> Some n
      | JObj kvs \<Rightarrow> (if lit ''toString'' \<in> set (map fst kvs) then None else Some NaN)
      | _ \<Rightarrow> Some NaN)"

definition sample_id :: jsstring where
  "sample_id = lit ''507f1f77bcf86cd799439011''"

definition sample_mongoose :: mongoose where
  "sample_mongoose =
     \<lparr>isValidObjectId = (\<lambda>s. length s = 24),
      castObjectId = (\<lambda>s. if length s = 24 then Some s else None)\<rparr>"

definition sample_list :: shoppingList where
  "sample_list =
     \<lparr>list_name = lit ''Old name'', list_state = lit ''active'',
      list_ownerUuIdentity = MOCK_OWNER,
      list_members = [\<lparr>member_uuIdentity = MOCK_OWNER, member_role = lit ''owner''\<rparr>],
      list_items = [], list_createdAt = 1, list_updatedAt = 1\<rparr>"

definition sample_db :: db where
  "sample_db = [(sample_id, sample_list)]"

definition sample_env :: mongo_env where
  "sample_env =
     \<lparr>env_mongoose = sample_mongoose, env_fault = False, env_newId = sample_id, env_now = 2\<rparr>"

definition sample_update_body :: obj where
  "sample_update_body =
     object [(''id'', JStr sample_id), (''name'', str ''Milk''), (''state'', str ''deleted'')]"



section \<open>Properties of the envelope builder\<close>

lemma lit_eq_iff [simp]: "lit s = lit t \<longleftrightarrow> s = t"
  unfolding lit_def by (rule inj_map_eq_map) (rule inj_of_char)

lemma lit_Nil_iff [simp]: "lit s = [] \<longleftrightarrow> s = []"
  by (simp add: lit_def)

lemma map_of_assign_same [simp]: "map_of (assign k v ob) k = Some v"
  by (simp add: assign_def update_conv')

lemma map_of_assign_other [simp]: "k' \<noteq> k \<Longrightarrow> map_of (assign k v ob) k' = map_of ob k'"
  by (simp add: assign_def update_conv')

text \<open>
  Claim C9. For every payload and every error map, the object built by
  \<open>buildResponse\<close> (of either server) has its \<open>uuAppErrorMap\<close> property equal to the
  supplied error map, also when the payload has a property of that name: the error map
  is written after the payload has been spread.
\<close>

theorem buildResponse_errorMap_not_shadowed:
  "getProp (mock_buildResponse (Some dtoOut) (Some errorMap)) ''uuAppErrorMap'' = JObj errorMap
   \<and> getProp (mongo_buildResponse dtoOut (Some errorMap)) ''uuAppErrorMap'' = JObj errorMap"
  by (simp add: getProp_def mock_buildResponse_def mongo_buildResponse_def)

text \<open>The same at a payload that has a property \<open>uuAppErrorMap\<close> of its own.\<close>

theorem buildResponse_errorMap_not_shadowed_witness:
  "getProp (mock_buildResponse
       (Some (object [(''uuAppErrorMap'', str ''payload''), (''id'', JStr sample_id)]))
       (Some (object [(''shoppingList/get/notFound'', JNull)]))) ''uuAppErrorMap''
     = JObj (object [(''shoppingList/get/notFound'', JNull)])
   \<and> getProp (mongo_buildResponse
       (object [(''uuAppErrorMap'', str ''payload''), (''id'', JStr sample_id)])
       (Some (object [(''shoppingList/get/notFound'', JNull)]))) ''uuAppErrorMap''
     = JObj (object [(''shoppingList/get/notFound'', JNull)])"
  by (rule buildResponse_errorMap_not_shadowed)

section \<open>Every response is an envelope\<close>




lemma status_res_status_json: "status (res_status_json s b) = s"
  by (simp add: res_status_json_def)

lemma errorMapOf_mock:
  "errorMapOf (res_status_json s (mock_buildResponse x e)) = Some (case e of None \<Rightarrow> [] | Some m \<Rightarrow> m)"
  by (simp add: errorMapOf_def res_status_json_def mock_buildResponse_def)

lemma errorMapOf_mongo:
  "errorMapOf (res_status_json s (mongo_buildResponse x e)) = Some (case e of None \<Rightarrow> [] | Some m \<Rightarrow> m)"
  by (simp add: errorMapOf_def res_status_json_def mongo_buildResponse_def)














lemma hasAnyProfile_mock_auth:
  "hasAnyProfile (mock_auth req) [PROFILES_USER, PROFILES_AUTHORITIES]"
  "hasAnyProfile (mock_auth req) [PROFILES_OWNER, PROFILES_AUTHORITIES]"
  by (simp_all add: hasAnyProfile_def mock_auth_def)


















section \<open>The authorization gate\<close>

lemma hasAnyProfile_iff:
  "hasAnyProfile req rs \<longleftrightarrow> set (profiles (req_user req)) \<inter> set rs \<noteq> {}"
  by (auto simp: hasAnyProfile_def list_ex_iff)

lemma hasAnyProfile_body [simp]:
  "hasAnyProfile (req\<lparr>req_body := b, req_query := q\<rparr>) rs = hasAnyProfile req rs"
  by (simp add: hasAnyProfile_def)

lemma errorKeys_mock:
  "errorKeys (res_status_json s (mock_buildResponse x e)) = map fst (case e of None \<Rightarrow> [] | Some m \<Rightarrow> m)"
  by (simp add: errorKeys_def errorMapOf_mock)

lemma errorKeys_mongo:
  "errorKeys (res_status_json s (mongo_buildResponse x e)) = map fst (case e of None \<Rightarrow> [] | Some m \<Rightarrow> m)"
  by (simp add: errorKeys_def errorMapOf_mongo)

lemma assign_Nil: "assign k v [] = [(k, v)]"
  by (simp add: assign_def)

lemma mock_app_never_403: "status (mock_app c now Number req) \<noteq> 403"
proof (cases c)
  case MockCreate
  then show ?thesis
    by (simp add: mock_app_def mock_create_def hasAnyProfile_mock_auth status_res_status_json
        res_json_def uncaught_TypeError_def split: option.split)
next
  case MockGet
  then show ?thesis
    by (simp add: mock_app_def mock_get_def status_res_status_json res_json_def Let_def)
next
  case MockList
  then show ?thesis
    by (simp add: mock_app_def mock_list_def status_res_status_json res_json_def Let_def
        uncaught_TypeError_def split: option.split)
next
  case MockUpdate
  then show ?thesis
    by (simp add: mock_app_def mock_update_def hasAnyProfile_mock_auth status_res_status_json
        res_json_def uncaught_TypeError_def Let_def split: option.split)
next
  case MockDelete
  then show ?thesis
    by (simp add: mock_app_def mock_delete_def hasAnyProfile_mock_auth status_res_status_json
        res_json_def uncaught_TypeError_def split: option.split)
next
  case MockAddMember
  then show ?thesis
    by (simp add: mock_app_def mock_addMember_def hasAnyProfile_mock_auth status_res_status_json
        res_json_def uncaught_TypeError_def Let_def split: option.split)
next
  case MockRemoveMember
  then show ?thesis
    by (simp add: mock_app_def mock_removeMember_def hasAnyProfile_mock_auth
        status_res_status_json res_json_def uncaught_TypeError_def Let_def split: option.split)
next
  case MockLeave
  then show ?thesis
    by (simp add: mock_app_def mock_leave_def status_res_status_json res_json_def
        uncaught_TypeError_def split: option.split)
qed

lemma status_failed: "status (failed_response key message) = 500"
  by (simp add: failed_response_def status_res_status_json)

lemmas status_simps = status_failed status_res_status_json res_json_def uncaught_TypeError_def
  Let_def

lemma mongo_update_try_never_403:
  "status (fst (mongo_update_try env fault now d idParam body errorMap)) \<noteq> 403"
  by (simp add: mongo_update_try_def status_simps split: sum.split option.split prod.split)

lemma mongo_never_403: "status (fst (mongo_handler mc e d idParam reqBody)) \<noteq> 403"
proof (cases mc)
  case MongoList
  then show ?thesis
    by (simp add: mongo_list_def status_simps split: sum.split)
next
  case MongoGet
  then show ?thesis
    by (simp add: mongo_get_def status_simps split: sum.split option.split)
next
  case MongoCreate
  then show ?thesis
    by (simp add: mongo_create_def status_simps split: sum.split option.split prod.split)
next
  case MongoUpdate
  then show ?thesis
    by (simp add: mongo_update_def mongo_update_try_never_403 status_simps split: option.split)
next
  case MongoDelete
  then show ?thesis
    by (simp add: mongo_delete_def status_simps split: sum.split option.split prod.split)
qed

text \<open>
  Claim C3, amended. In the handlers of the mock server, for every command that requires
  roles and every request whose caller has none of them (the caller's role set and the
  required role set have an empty intersection): the response has status 403; its error
  map has exactly one entry, keyed \<open>shoppingList/<command>/unauthorized\<close>; and the
  response does not depend on the body or the query of the request, so no field validation
  has run. The handlers of the mock server are functions of the request alone: there is
  no store they could change. Behind the middleware of the mock server, which gives every
  caller the roles User and ShoppingListOwner, no request is answered with 403. The
  database-backed server has no authorization gate: its handlers are given no caller and
  no role, and never answer 403.
\<close>

theorem unauthorized_short_circuit:
  assumes "spec_requiredProfiles c = Some required"
    and "set (profiles (req_user req)) \<inter> set required = {}"
  shows "status (mock_handler c now Number req) = 403
    \<and> errorKeys (mock_handler c now Number req)
        = [lit (''shoppingList/'' @ spec_commandName c @ ''/unauthorized'')]
    \<and> mock_handler c now Number (req\<lparr>req_body := b, req_query := q\<rparr>)
        = mock_handler c now Number req
    \<and> status (mock_app c' now' Number' req') \<noteq> 403
    \<and> status (fst (mongo_handler mc e d idParam reqBody)) \<noteq> 403"
proof -
  from assms have no: "\<not> hasAnyProfile req required"
    by (simp add: hasAnyProfile_iff)
  have gate: "status (mock_handler c now Number req) = 403
    \<and> errorKeys (mock_handler c now Number req)
        = [lit (''shoppingList/'' @ spec_commandName c @ ''/unauthorized'')]
    \<and> mock_handler c now Number (req\<lparr>req_body := b, req_query := q\<rparr>)
        = mock_handler c now Number req"
  proof (cases c)
    case MockCreate
    with assms(1) no show ?thesis
      by (auto simp: mock_create_def status_res_status_json errorKeys_mock assign_Nil)
  next
    case MockUpdate
    with assms(1) no show ?thesis
      by (auto simp: mock_update_def status_res_status_json errorKeys_mock assign_Nil)
  next
    case MockDelete
    with assms(1) no show ?thesis
      by (auto simp: mock_delete_def status_res_status_json errorKeys_mock assign_Nil)
  next
    case MockAddMember
    with assms(1) no show ?thesis
      by (auto simp: mock_addMember_def status_res_status_json errorKeys_mock assign_Nil)
  next
    case MockRemoveMember
    with assms(1) no show ?thesis
      by (auto simp: mock_removeMember_def status_res_status_json errorKeys_mock assign_Nil)
  qed (use assms(1) in simp_all)
  then show ?thesis
    by (simp add: mock_app_never_403 mongo_never_403)
qed

text \<open>
  The gate at a caller who is only a member, updating with an invalid name; the same
  request behind the middleware; and a delete on the database-backed server.
\<close>

theorem unauthorized_short_circuit_witness:
  "spec_requiredProfiles MockUpdate = Some [PROFILES_OWNER, PROFILES_AUTHORITIES]
   \<and> set (profiles (req_user sample_member_request))
       \<inter> set [PROFILES_OWNER, PROFILES_AUTHORITIES] = {}
   \<and> status (mock_handler MockUpdate 0 sample_Number sample_member_request) = 403
   \<and> errorKeys (mock_handler MockUpdate 0 sample_Number sample_member_request)
       = [lit ''shoppingList/update/unauthorized'']
   \<and> mock_handler MockUpdate 0 sample_Number
        (sample_member_request\<lparr>req_body := None, req_query := []\<rparr>)
       = mock_handler MockUpdate 0 sample_Number sample_member_request
   \<and> status (mock_app MockUpdate 0 sample_Number sample_member_request) \<noteq> 403
   \<and> status (fst (mongo_handler MongoDelete sample_env sample_db sample_id None)) \<noteq> 403"
proof -
  have h1: "spec_requiredProfiles MockUpdate = Some [PROFILES_OWNER, PROFILES_AUTHORITIES]"
    by simp
  have h2: "set (profiles (req_user sample_member_request))
       \<inter> set [PROFILES_OWNER, PROFILES_AUTHORITIES] = {}"
    by (simp add: sample_member_request_def PROFILES_OWNER_def PROFILES_AUTHORITIES_def
        PROFILES_MEMBER_def)
  from unauthorized_short_circuit [OF h1 h2, of 0 sample_Number "[]" None MockUpdate 0
      sample_Number sample_member_request MongoDelete sample_env sample_db sample_id None] h1 h2
  show ?thesis by simp
qed

text \<open>
  Claim C3 as stated fails on the database-backed server, the one with a store. Its delete
  handler is given the identifier and nothing of the caller; whoever sends the request,
  the answer is 200, not 403, and the stored list is removed.
\<close>

theorem mongo_no_gate_counterexample:
  "status (fst (mongo_handler MongoDelete sample_env sample_db sample_id None)) = 200
   \<and> sample_db \<noteq> []
   \<and> snd (mongo_handler MongoDelete sample_env sample_db sample_id None) = []"
  by (simp add: sample_env_def sample_mongoose_def sample_db_def sample_id_def lit_def
      mongo_delete_def ShoppingList_findByIdAndDelete_def status_simps)

section \<open>Create\<close>

lemma json_body_res_status_json: "json_body (res_status_json s b) = b"
  by (simp add: res_status_json_def)

lemma map_of_fold_assign:
  "map_of (fold (\<lambda>(k, v) acc. assign k v acc) d acc) = map_of acc ++ map_of (rev d)"
proof (induction d arbitrary: acc)
  case Nil
  show ?case by simp
next
  case (Cons x d)
  obtain k v where x: "x = (k, v)" by (cases x)
  have "map_of (assign k v acc) ++ map_of (rev d) = map_of acc ++ (map_of [(k, v)] ++ map_of (rev d))"
    by (rule ext) (simp add: assign_def update_conv' map_add_def split: option.split)
  with Cons show ?case
    by (simp add: x)
qed

lemma map_of_spread: "map_of (spread d) = map_of (rev d)"
  by (simp add: spread_def map_of_fold_assign)

lemma getProp_mock_payload:
  "k \<noteq> ''uuAppErrorMap'' \<Longrightarrow> getProp (mock_buildResponse (Some d) e) k = getProp (rev d) k"
  by (simp add: getProp_def mock_buildResponse_def map_of_spread)

lemma getProp_mongo_payload:
  "k \<noteq> ''uuAppErrorMap'' \<Longrightarrow> getProp (mongo_buildResponse d e) k = getProp (rev d) k"
  by (simp add: getProp_def mongo_buildResponse_def map_of_spread)

lemma trim_Nil [simp]: "trim [] = []"
  by (simp add: trim_def)

lemma trim_nonempty: "trim s \<noteq> [] \<Longrightarrow> s \<noteq> []"
  by auto

lemma mock_create_valid:
  assumes "hasAnyProfile req [PROFILES_USER, PROFILES_AUTHORITIES]"
    and "req_body req = Some dtoIn"
    and "getProp dtoIn ''name'' = JStr s" and "trim s \<noteq> []"
  shows "mock_create now req =
     res_json (mock_buildResponse
       (Some (object [(''awid'', AWID),
                      (''id'', JStr (lit ''list-'' @ decimal now)),
                      (''name'', JStr (trim s)),
                      (''state'', str ''active''),
                      (''ownerUuIdentity'', JStr (uuIdentity (req_user req))),
                      (''members'', JArr []),
                      (''items'', JArr [])]))
       None)"
  using assms trim_nonempty [of s] by (simp add: mock_create_def)

lemma mongo_create_valid:
  assumes "getProp body ''name'' = JStr s" and "trim s \<noteq> []"
    and "\<not> fault" and "newId \<notin> set (map fst d)"
  shows "mongo_create fault newId now d (Some body) =
     (res_status_json 201 (mongo_buildResponse
        (list_dtoOut (newId,
           \<lparr>list_name = trim s, list_state = lit ''active'',
            list_ownerUuIdentity = MOCK_OWNER,
            list_members = [\<lparr>member_uuIdentity = MOCK_OWNER, member_role = lit ''owner''\<rparr>],
            list_items = [], list_createdAt = now, list_updatedAt = now\<rparr>)) None),
      d @ [(newId,
           \<lparr>list_name = trim s, list_state = lit ''active'',
            list_ownerUuIdentity = MOCK_OWNER,
            list_members = [\<lparr>member_uuIdentity = MOCK_OWNER, member_role = lit ''owner''\<rparr>],
            list_items = [], list_createdAt = now, list_updatedAt = now\<rparr>)])"
  using assms trim_nonempty [of s]
  by (simp add: mongo_create_def ShoppingList_create_def validate_shoppingList_def
      validate_member_def state_enum_def role_enum_def MOCK_OWNER_def)

lemma getProp_list_dtoOut:
  "getProp (rev (list_dtoOut kl)) ''id'' = JStr (fst kl)"
  "getProp (rev (list_dtoOut kl)) ''name'' = JStr (list_name (snd kl))"
  "getProp (rev (list_dtoOut kl)) ''state'' = JStr (list_state (snd kl))"
  "getProp (rev (list_dtoOut kl)) ''ownerUuIdentity'' = JStr (list_ownerUuIdentity (snd kl))"
  "getProp (rev (list_dtoOut kl)) ''members'' = JArr (map member_json (list_members (snd kl)))"
  "getProp (rev (list_dtoOut kl)) ''items'' = JArr (map item_json (list_items (snd kl)))"
  by (simp_all add: getProp_def list_dtoOut_def object_def)

text \<open>
  Claim C4. For every valid create input (the name is a string that is non-empty after
  trimming), the record returned has the trimmed input as its name and state
  \<open>active\<close>. The mock server returns it when the caller passes the authorization gate;
  the database-backed server returns it, and stores it under the new identifier, when the
  store accepts the document.
\<close>

theorem create_returns_trimmed_active:
  assumes "req_body req = Some dtoIn"
    and "getProp dtoIn ''name'' = JStr s" and "trim s \<noteq> []"
  shows "(hasAnyProfile req [PROFILES_USER, PROFILES_AUTHORITIES] \<longrightarrow>
            is2xx (status (mock_create now req))
            \<and> getProp (json_body (mock_create now req)) ''name'' = JStr (trim s)
            \<and> getProp (json_body (mock_create now req)) ''state'' = str ''active'')
       \<and> (\<not> fault \<and> newId \<notin> set (map fst d) \<longrightarrow>
            is2xx (status (fst (mongo_create fault newId now d (req_body req))))
            \<and> getProp (json_body (fst (mongo_create fault newId now d (req_body req)))) ''name''
                = JStr (trim s)
            \<and> getProp (json_body (fst (mongo_create fault newId now d (req_body req)))) ''state''
                = str ''active''
            \<and> map_option list_name (map_of (snd (mongo_create fault newId now d (req_body req))) newId)
                = Some (trim s)
            \<and> map_option list_state (map_of (snd (mongo_create fault newId now d (req_body req))) newId)
                = Some (lit ''active''))"
proof (intro conjI impI)
  assume a: "hasAnyProfile req [PROFILES_USER, PROFILES_AUTHORITIES]"
  note r = mock_create_valid [OF a assms, of now]
  show "is2xx (status (mock_create now req))"
    by (simp add: r res_json_def status_res_status_json is2xx_def)
  show "getProp (json_body (mock_create now req)) ''name'' = JStr (trim s)"
    by (simp add: r res_json_def json_body_res_status_json getProp_mock_payload)
      (simp add: getProp_def object_def)
  show "getProp (json_body (mock_create now req)) ''state'' = str ''active''"
    by (simp add: r res_json_def json_body_res_status_json getProp_mock_payload)
      (simp add: getProp_def object_def)
next
  assume "\<not> fault \<and> newId \<notin> set (map fst d)"
  then have f: "\<not> fault" and n: "newId \<notin> set (map fst d)" by simp_all
  note r = mongo_create_valid [OF assms(2) assms(3) f n, of now]
  show "is2xx (status (fst (mongo_create fault newId now d (req_body req))))"
    by (simp add: assms(1) r status_res_status_json is2xx_def)
  show "getProp (json_body (fst (mongo_create fault newId now d (req_body req)))) ''name''
          = JStr (trim s)"
    by (simp add: assms(1) r json_body_res_status_json getProp_mongo_payload getProp_list_dtoOut)
  show "getProp (json_body (fst (mongo_create fault newId now d (req_body req)))) ''state''
          = str ''active''"
    by (simp add: assms(1) r json_body_res_status_json getProp_mongo_payload getProp_list_dtoOut str_def)
  from n have m: "map_of d newId = None"
    by (simp add: map_of_eq_None_iff)
  show "map_option list_name (map_of (snd (mongo_create fault newId now d (req_body req))) newId)
          = Some (trim s)"
    by (simp add: assms(1) r map_add_def m)
  show "map_option list_state (map_of (snd (mongo_create fault newId now d (req_body req))) newId)
          = Some (lit ''active'')"
    by (simp add: assms(1) r map_add_def m)
qed

lemma trim_Milk: "trim (lit ''  Milk '') = lit ''Milk''"
  by (simp add: trim_def lit_def isWhiteSpace_def)

lemma decimal_0: "decimal 0 = [48]"
  by (simp add: decimal.simps)

lemma getProp_object_Cons:
  "getProp (object ((k, v) # kvs)) k' = (if k' = k then v else getProp (object kvs) k')"
  by (simp add: getProp_def object_def)

lemma hasAny_sample:
  "hasAnyProfile (sample_request b q) [PROFILES_USER, PROFILES_AUTHORITIES]"
  "hasAnyProfile (sample_request b q) [PROFILES_OWNER, PROFILES_AUTHORITIES]"
  by (simp_all add: hasAnyProfile_def sample_request_def sample_user_def)

lemma trim_Saturday: "trim (lit ''Saturday Groceries'') = lit ''Saturday Groceries''"
  by (simp add: trim_def lit_def isWhiteSpace_def)

lemma errorMapOf_res_json_mock:
  "errorMapOf (res_json (mock_buildResponse x e)) = Some (case e of None \<Rightarrow> [] | Some m \<Rightarrow> m)"
  by (simp add: res_json_def errorMapOf_mock)

lemma sample_req_body: "req_body (sample_request b q) = Some b"
  by (simp add: sample_request_def)

lemma sample_body_name:
  "getProp (object [(''name'', JStr s)]) ''name'' = JStr s"
  by (simp add: getProp_object_Cons)

text \<open>Creating a list named \<open>Milk\<close> with spaces around it, on both servers.\<close>

theorem create_returns_trimmed_active_witness:
  "req_body (sample_request (object [(''name'', JStr (lit ''  Milk ''))]) [])
      = Some (object [(''name'', JStr (lit ''  Milk ''))])
   \<and> getProp (object [(''name'', JStr (lit ''  Milk ''))]) ''name'' = JStr (lit ''  Milk '')
   \<and> trim (lit ''  Milk '') \<noteq> []
   \<and> hasAnyProfile (sample_request (object [(''name'', JStr (lit ''  Milk ''))]) [])
        [PROFILES_USER, PROFILES_AUTHORITIES]
   \<and> getProp (json_body (mock_create 0
        (sample_request (object [(''name'', JStr (lit ''  Milk ''))]) []))) ''name'' = str ''Milk''
   \<and> getProp (json_body (mock_create 0
        (sample_request (object [(''name'', JStr (lit ''  Milk ''))]) []))) ''state'' = str ''active''
   \<and> sample_id \<notin> set (map fst ([] :: db))
   \<and> getProp (json_body (fst (mongo_create False sample_id 0 []
        (req_body (sample_request (object [(''name'', JStr (lit ''  Milk ''))]) []))))) ''name''
        = str ''Milk''
   \<and> getProp (json_body (fst (mongo_create False sample_id 0 []
        (req_body (sample_request (object [(''name'', JStr (lit ''  Milk ''))]) []))))) ''state''
        = str ''active''"
proof -
  have t: "trim (lit ''  Milk '') \<noteq> []"
    by (simp add: trim_Milk)
  from create_returns_trimmed_active
      [OF sample_req_body [of "object [(''name'', JStr (lit ''  Milk ''))]" "[]"]
        sample_body_name t, of 0 False sample_id "[]"]
    hasAny_sample(1) [of "object [(''name'', JStr (lit ''  Milk ''))]" "[]"]
  show ?thesis
    by (simp add: sample_req_body sample_body_name trim_Milk str_def)
qed

text \<open>
  Claim C8, amended. For every valid create request, the success response carries
  \<open>id\<close>, the trimmed \<open>name\<close>, \<open>state\<close> \<open>active\<close> and an empty
  \<open>uuAppErrorMap\<close>; its status is 201 in the database-backed server and 200 in the
  mock server, which answers with \<open>res.json\<close> and sets no status.
\<close>

theorem create_success_status:
  assumes "req_body req = Some dtoIn"
    and "getProp dtoIn ''name'' = JStr s" and "trim s \<noteq> []"
  shows "(hasAnyProfile req [PROFILES_USER, PROFILES_AUTHORITIES] \<longrightarrow>
            status (mock_create now req) = 200
            \<and> getProp (json_body (mock_create now req)) ''id'' = JStr (lit ''list-'' @ decimal now)
            \<and> getProp (json_body (mock_create now req)) ''name'' = JStr (trim s)
            \<and> getProp (json_body (mock_create now req)) ''state'' = str ''active''
            \<and> errorMapOf (mock_create now req) = Some [])
       \<and> (\<not> fault \<and> newId \<notin> set (map fst d) \<longrightarrow>
            status (fst (mongo_create fault newId now d (req_body req))) = 201
            \<and> getProp (json_body (fst (mongo_create fault newId now d (req_body req)))) ''id''
                = JStr newId
            \<and> getProp (json_body (fst (mongo_create fault newId now d (req_body req)))) ''name''
                = JStr (trim s)
            \<and> getProp (json_body (fst (mongo_create fault newId now d (req_body req)))) ''state''
                = str ''active''
            \<and> errorMapOf (fst (mongo_create fault newId now d (req_body req))) = Some [])"
proof (intro conjI impI)
  assume a: "hasAnyProfile req [PROFILES_USER, PROFILES_AUTHORITIES]"
  note r = mock_create_valid [OF a assms, of now]
  show "status (mock_create now req) = 200"
    by (simp add: r res_json_def status_res_status_json)
  show "getProp (json_body (mock_create now req)) ''id'' = JStr (lit ''list-'' @ decimal now)"
    by (simp add: r res_json_def json_body_res_status_json getProp_mock_payload)
      (simp add: getProp_def object_def)
  show "getProp (json_body (mock_create now req)) ''name'' = JStr (trim s)"
    by (simp add: r res_json_def json_body_res_status_json getProp_mock_payload)
      (simp add: getProp_def object_def)
  show "getProp (json_body (mock_create now req)) ''state'' = str ''active''"
    by (simp add: r res_json_def json_body_res_status_json getProp_mock_payload)
      (simp add: getProp_def object_def)
  show "errorMapOf (mock_create now req) = Some []"
    by (simp add: r errorMapOf_res_json_mock)
next
  assume "\<not> fault \<and> newId \<notin> set (map fst d)"
  then have f: "\<not> fault" and n: "newId \<notin> set (map fst d)" by simp_all
  note r = mongo_create_valid [OF assms(2) assms(3) f n, of now]
  show "status (fst (mongo_create fault newId now d (req_body req))) = 201"
    by (simp add: assms(1) r status_res_status_json)
  show "getProp (json_body (fst (mongo_create fault newId now d (req_body req)))) ''id''
          = JStr newId"
    by (simp add: assms(1) r json_body_res_status_json getProp_mongo_payload getProp_list_dtoOut)
  show "getProp (json_body (fst (mongo_create fault newId now d (req_body req)))) ''name''
          = JStr (trim s)"
    by (simp add: assms(1) r json_body_res_status_json getProp_mongo_payload getProp_list_dtoOut)
  show "getProp (json_body (fst (mongo_create fault newId now d (req_body req)))) ''state''
          = str ''active''"
    by (simp add: assms(1) r json_body_res_status_json getProp_mongo_payload getProp_list_dtoOut str_def)
  show "errorMapOf (fst (mongo_create fault newId now d (req_body req))) = Some []"
    by (simp add: assms(1) r errorMapOf_mongo)
qed

text \<open>The scenario of the specification, on both servers.\<close>

theorem create_success_status_witness:
  "req_body (sample_request (object [(''name'', JStr (lit ''Saturday Groceries''))]) [])
      = Some (object [(''name'', JStr (lit ''Saturday Groceries''))])
   \<and> getProp (object [(''name'', JStr (lit ''Saturday Groceries''))]) ''name''
      = JStr (lit ''Saturday Groceries'')
   \<and> trim (lit ''Saturday Groceries'') \<noteq> []
   \<and> hasAnyProfile (sample_request (object [(''name'', JStr (lit ''Saturday Groceries''))]) [])
        [PROFILES_USER, PROFILES_AUTHORITIES]
   \<and> status (mock_create 0
        (sample_request (object [(''name'', JStr (lit ''Saturday Groceries''))]) [])) = 200
   \<and> sample_id \<notin> set (map fst ([] :: db))
   \<and> status (fst (mongo_create False sample_id 0 []
        (req_body (sample_request (object [(''name'', JStr (lit ''Saturday Groceries''))]) []))))
        = 201
   \<and> getProp (json_body (fst (mongo_create False sample_id 0 []
        (req_body (sample_request (object [(''name'', JStr (lit ''Saturday Groceries''))]) [])))))
        ''name'' = str ''Saturday Groceries''
   \<and> errorMapOf (fst (mongo_create False sample_id 0 []
        (req_body (sample_request (object [(''name'', JStr (lit ''Saturday Groceries''))]) []))))
        = Some []"
proof -
  have t: "trim (lit ''Saturday Groceries'') \<noteq> []"
    by (simp add: trim_Saturday)
  from create_success_status
      [OF sample_req_body [of "object [(''name'', JStr (lit ''Saturday Groceries''))]" "[]"]
        sample_body_name t, of 0 False sample_id "[]"]
    hasAny_sample(1) [of "object [(''name'', JStr (lit ''Saturday Groceries''))]" "[]"]
  show ?thesis
    by (simp add: sample_req_body sample_body_name trim_Saturday str_def)
qed

text \<open>
  Claim C8 as stated asks for status 201 on every valid create request; the mock server
  answers the scenario of the specification with 200.
\<close>

theorem mock_create_status_counterexample:
  "status (mock_app MockCreate 0 sample_Number
      (sample_request (object [(''name'', str ''Saturday Groceries'')]) [])) = 200
   \<and> status (mock_app MockCreate 0 sample_Number
      (sample_request (object [(''name'', str ''Saturday Groceries'')]) [])) \<noteq> 201"
proof -
  have a: "mock_auth (sample_request b q) = sample_request b q" for b q
    by (simp add: mock_auth_def sample_request_def sample_user_def)
  have n: "getProp (object [(''name'', str ''Saturday Groceries'')]) ''name''
      = JStr (lit ''Saturday Groceries'')"
    by (simp add: getProp_object_Cons str_def)
  have t: "trim (lit ''Saturday Groceries'') \<noteq> []"
    by (simp add: trim_Saturday)
  show ?thesis
    by (simp add: mock_app_def a mock_create_valid [OF hasAny_sample(1) sample_req_body n t]
        res_json_def status_res_status_json)
qed

section \<open>Create, then get\<close>

lemma mongo_get_found:
  assumes "isValidObjectId env idParam" and "castObjectId env idParam = Some k"
    and "map_of d k = Some l" and "\<not> fault"
  shows "mongo_get env fault d idParam = res_json (mongo_buildResponse (list_dtoOut (k, l)) None)"
  using assms by (simp add: mongo_get_def ShoppingList_findById_def)

lemma mock_get_found:
  assumes "\<not> falsy (getProp (req_query req) ''id'')"
  shows "getProp (json_body (mock_get req)) ''name'' = str ''Example list''"
  using assms
  by (simp add: mock_get_def res_json_def json_body_res_status_json getProp_mock_payload)
    (simp add: getProp_def object_def)

lemma mock_get_status:
  assumes "\<not> falsy (getProp (req_query req) ''id'')"
  shows "status (mock_get req) = 200"
  using assms by (simp add: mock_get_def res_json_def status_res_status_json)

text \<open>
  Claim C6, amended. In the database-backed server, when the store calls succeed (the
  new identifier is fresh, valid and in canonical form), create with a valid name followed
  by get with the returned identifier yields status 200, the trimmed name, state
  \<open>active\<close>, and as members the entry with role \<open>owner\<close> and the identity of the
  (fixed) caller. The get of the mock server returns the fixed example list for every
  non-empty id, whatever was created.
\<close>

theorem create_get_round_trip:
  assumes "getProp body ''name'' = JStr s" and "trim s \<noteq> []"
    and "newId \<notin> set (map fst d)"
    and "isValidObjectId env newId" and "castObjectId env newId = Some newId"
  shows "status (fst (mongo_create False newId now d (Some body))) = 201
    \<and> getProp (json_body (fst (mongo_create False newId now d (Some body)))) ''id'' = JStr newId
    \<and> status (mongo_get env False (snd (mongo_create False newId now d (Some body))) newId) = 200
    \<and> getProp (json_body (mongo_get env False (snd (mongo_create False newId now d (Some body))) newId))
         ''name'' = JStr (trim s)
    \<and> getProp (json_body (mongo_get env False (snd (mongo_create False newId now d (Some body))) newId))
         ''state'' = str ''active''
    \<and> getProp (json_body (mongo_get env False (snd (mongo_create False newId now d (Some body))) newId))
         ''members''
        = JArr [JObj (object [(''uuIdentity'', JStr MOCK_OWNER), (''role'', str ''owner'')])]
    \<and> (\<not> falsy (getProp (req_query req) ''id'') \<longrightarrow>
          getProp (json_body (mock_get req)) ''name'' = str ''Example list'')"
proof -
  have f: "\<not> False" by simp
  note c = mongo_create_valid [OF assms(1) assms(2) f assms(3), of now]
  from assms(3) have m: "map_of d newId = None"
    by (simp add: map_of_eq_None_iff)
  have stored: "map_of (snd (mongo_create False newId now d (Some body))) newId =
      Some \<lparr>list_name = trim s, list_state = lit ''active'',
            list_ownerUuIdentity = MOCK_OWNER,
            list_members = [\<lparr>member_uuIdentity = MOCK_OWNER, member_role = lit ''owner''\<rparr>],
            list_items = [], list_createdAt = now, list_updatedAt = now\<rparr>"
    by (simp add: c map_add_def m)
  note g = mongo_get_found [OF assms(4) assms(5) stored f]
  show ?thesis
    by (simp add: g res_json_def status_res_status_json json_body_res_status_json
        getProp_mongo_payload getProp_list_dtoOut mock_get_found str_def member_json_def)
      (simp add: c status_res_status_json json_body_res_status_json
        getProp_mongo_payload getProp_list_dtoOut)
qed

lemma sample_mongoose_ok:
  "isValidObjectId sample_mongoose sample_id" "castObjectId sample_mongoose sample_id = Some sample_id"
  by (simp_all add: sample_mongoose_def sample_id_def lit_def)

text \<open>The round trip on an empty collection, and the mock get.\<close>

theorem create_get_round_trip_witness:
  "getProp (object [(''name'', JStr (lit ''  Milk ''))]) ''name'' = JStr (lit ''  Milk '')
   \<and> trim (lit ''  Milk '') \<noteq> []
   \<and> sample_id \<notin> set (map fst ([] :: db))
   \<and> isValidObjectId sample_mongoose sample_id
   \<and> castObjectId sample_mongoose sample_id = Some sample_id
   \<and> getProp (json_body (mongo_get sample_mongoose False
         (snd (mongo_create False sample_id 0 []
            (Some (object [(''name'', JStr (lit ''  Milk ''))]))))
         sample_id)) ''name'' = str ''Milk''
   \<and> getProp (json_body (mongo_get sample_mongoose False
         (snd (mongo_create False sample_id 0 []
            (Some (object [(''name'', JStr (lit ''  Milk ''))]))))
         sample_id)) ''members''
       = JArr [JObj (object [(''uuIdentity'', JStr MOCK_OWNER), (''role'', str ''owner'')])]
   \<and> \<not> falsy (getProp (req_query (sample_request [] (object [(''id'', str ''list-0'')]))) ''id'')
   \<and> getProp (json_body (mock_get (sample_request [] (object [(''id'', str ''list-0'')]))))
         ''name'' = str ''Example list''"
proof -
  have n: "getProp (object [(''name'', JStr (lit ''  Milk ''))]) ''name'' = JStr (lit ''  Milk '')"
    by (simp add: getProp_object_Cons)
  have t: "trim (lit ''  Milk '') \<noteq> []"
    by (simp add: trim_Milk)
  have fr: "sample_id \<notin> set (map fst ([] :: db))"
    by simp
  have q: "\<not> falsy (getProp (req_query (sample_request [] (object [(''id'', str ''list-0'')]))) ''id'')"
    by (simp add: sample_request_def getProp_object_Cons str_def)
  from create_get_round_trip [OF n t fr sample_mongoose_ok,
      of 0 "sample_request [] (object [(''id'', str ''list-0'')])"] q
  show ?thesis
    by (simp add: n trim_Milk sample_mongoose_ok str_def)
qed

text \<open>
  Claim C6 as stated fails on the mock server: the list it creates gets the identifier
  \<open>list-0\<close> (at time 0), and get with that identifier returns the fixed example list,
  whose name is not the one that was created.
\<close>

theorem mock_round_trip_counterexample:
  "getProp (json_body (mock_app MockCreate 0 sample_Number
      (sample_request (object [(''name'', JStr (lit ''Saturday Groceries''))]) []))) ''id''
     = str ''list-0''
   \<and> status (mock_app MockGet 0 sample_Number (sample_request [] (object [(''id'', str ''list-0'')])))
     = 200
   \<and> getProp (json_body (mock_app MockGet 0 sample_Number
      (sample_request [] (object [(''id'', str ''list-0'')])))) ''name''
     = str ''Example list''
   \<and> str ''Example list'' \<noteq> str ''Saturday Groceries''"
proof -
  have a: "mock_auth (sample_request b q) = sample_request b q" for b q
    by (simp add: mock_auth_def sample_request_def sample_user_def)
  have t: "trim (lit ''Saturday Groceries'') \<noteq> []"
    by (simp add: trim_Saturday)
  have q: "\<not> falsy (getProp (req_query (sample_request [] (object [(''id'', str ''list-0'')]))) ''id'')"
    by (simp add: sample_request_def getProp_object_Cons str_def)
  have 1: "getProp (json_body (mock_app MockCreate 0 sample_Number
      (sample_request (object [(''name'', JStr (lit ''Saturday Groceries''))]) []))) ''id''
     = str ''list-0''"
    by (simp add: mock_app_def a mock_create_valid [OF hasAny_sample(1) sample_req_body sample_body_name t]
        res_json_def json_body_res_status_json getProp_mock_payload)
      (simp add: getProp_def object_def decimal_0 str_def lit_def)
  have 2: "status (mock_app MockGet 0 sample_Number (sample_request [] (object [(''id'', str ''list-0'')])))
     = 200"
    by (simp add: mock_app_def a mock_get_status [OF q])
  have 3: "getProp (json_body (mock_app MockGet 0 sample_Number
      (sample_request [] (object [(''id'', str ''list-0'')])))) ''name''
     = str ''Example list''"
    by (simp add: mock_app_def a mock_get_found [OF q])
  show ?thesis
    using 1 2 3 by (simp add: str_def)
qed

section \<open>Delete\<close>

lemma mongo_delete_notFound:
  assumes "isValidObjectId env idParam" and "castObjectId env idParam = Some k"
    and "map_of d k = None" and "\<not> fault"
  shows "mongo_delete env fault d idParam =
     (res_status_json 404 (mongo_buildResponse []
        (Some [(lit ''shoppingList/delete/notFound'',
                error_entry ''Shopping list not found.'' (object [(''id'', JStr idParam)]))])), d)"
  using assms by (simp add: mongo_delete_def ShoppingList_findByIdAndDelete_def assign_Nil)

lemma mongo_delete_unresolved_after:
  assumes "castObjectId env idParam = Some k"
  shows "map_of (snd (mongo_delete env fault d idParam)) k = map_of (if fault \<or> \<not> isValidObjectId env idParam then d else AList.delete k d) k"
  using assms
  by (simp add: mongo_delete_def ShoppingList_findByIdAndDelete_def delete_conv'
      split: option.split)

lemma mock_delete_ok:
  assumes "hasAnyProfile req [PROFILES_OWNER, PROFILES_AUTHORITIES]"
    and "req_body req = Some dtoIn"
    and "\<not> falsy (getProp dtoIn ''id'')"
  shows "mock_delete req = res_json (mock_buildResponse
          (Some (object [(''awid'', AWID),
                         (''id'', getProp dtoIn ''id''),
                         (''deleted'', JBool True)]))
          None)"
  using assms by (simp add: mock_delete_def)

text \<open>
  Claim C7, amended. In the database-backed server, for every well-formed identifier
  (accepted by \<open>isValidObjectId\<close> and castable) that does not resolve to a stored
  record, delete returns 404 with the single error key \<open>shoppingList/delete/notFound\<close>
  and leaves the collection as it was, when the store call itself does not fail; in
  particular a second delete of the same identifier returns 404. The mock server has no
  store: its delete answers 200 with \<open>deleted: true\<close> for every non-empty id.
\<close>

theorem delete_unresolved_is_notFound:
  assumes "isValidObjectId env idParam" and "castObjectId env idParam = Some k"
  shows "(map_of d k = None \<longrightarrow>
            status (fst (mongo_delete env False d idParam)) = 404
            \<and> errorKeys (fst (mongo_delete env False d idParam))
                = [lit ''shoppingList/delete/notFound'']
            \<and> snd (mongo_delete env False d idParam) = d)
       \<and> status (fst (mongo_delete env False (snd (mongo_delete env False d idParam)) idParam))
           = 404
       \<and> (hasAnyProfile req [PROFILES_OWNER, PROFILES_AUTHORITIES]
            \<and> req_body req = Some dtoIn \<and> \<not> falsy (getProp dtoIn ''id'') \<longrightarrow>
            status (mock_delete req) = 200
            \<and> getProp (json_body (mock_delete req)) ''deleted'' = JBool True)"
proof (intro conjI impI)
  have f: "\<not> False" by simp
  {
    assume n: "map_of d k = None"
    note r = mongo_delete_notFound [OF assms n f]
    show "status (fst (mongo_delete env False d idParam)) = 404"
      by (simp add: r status_res_status_json)
    show "errorKeys (fst (mongo_delete env False d idParam)) = [lit ''shoppingList/delete/notFound'']"
      by (simp add: r errorKeys_mongo)
    show "snd (mongo_delete env False d idParam) = d"
      by (simp add: r)
  }
  have "map_of (snd (mongo_delete env False d idParam)) k = None"
    using assms by (simp add: mongo_delete_unresolved_after [OF assms(2)] delete_conv')
  note r2 = mongo_delete_notFound [OF assms this f]
  show "status (fst (mongo_delete env False (snd (mongo_delete env False d idParam)) idParam)) = 404"
    by (simp add: r2 status_res_status_json)
  {
    assume "hasAnyProfile req [PROFILES_OWNER, PROFILES_AUTHORITIES]
            \<and> req_body req = Some dtoIn \<and> \<not> falsy (getProp dtoIn ''id'')"
    then have a: "hasAnyProfile req [PROFILES_OWNER, PROFILES_AUTHORITIES]"
      and b: "req_body req = Some dtoIn"
      and i: "\<not> falsy (getProp dtoIn ''id'')" by simp_all
    note r = mock_delete_ok [OF a b i]
    show "status (mock_delete req) = 200"
      by (simp add: r res_json_def status_res_status_json)
    show "getProp (json_body (mock_delete req)) ''deleted'' = JBool True"
      by (simp add: r res_json_def json_body_res_status_json getProp_mock_payload)
        (simp add: getProp_def object_def)
  }
qed

text \<open>Delete on the empty collection, delete twice on the sample collection, and the mock.\<close>

theorem delete_unresolved_is_notFound_witness:
  "isValidObjectId sample_mongoose sample_id
   \<and> castObjectId sample_mongoose sample_id = Some sample_id
   \<and> map_of ([] :: db) sample_id = None
   \<and> status (fst (mongo_delete sample_mongoose False [] sample_id)) = 404
   \<and> errorKeys (fst (mongo_delete sample_mongoose False [] sample_id))
       = [lit ''shoppingList/delete/notFound'']
   \<and> snd (mongo_delete sample_mongoose False [] sample_id) = []
   \<and> status (fst (mongo_delete sample_mongoose False
         (snd (mongo_delete sample_mongoose False sample_db sample_id)) sample_id)) = 404
   \<and> hasAnyProfile (sample_request (object [(''id'', JStr sample_id)]) [])
        [PROFILES_OWNER, PROFILES_AUTHORITIES]
   \<and> req_body (sample_request (object [(''id'', JStr sample_id)]) [])
       = Some (object [(''id'', JStr sample_id)])
   \<and> \<not> falsy (getProp (object [(''id'', JStr sample_id)]) ''id'')
   \<and> status (mock_delete (sample_request (object [(''id'', JStr sample_id)]) [])) = 200"
proof -
  have i: "\<not> falsy (getProp (object [(''id'', JStr sample_id)]) ''id'')"
    by (simp add: getProp_object_Cons sample_id_def)
  from delete_unresolved_is_notFound [OF sample_mongoose_ok,
      of "[]" "sample_request (object [(''id'', JStr sample_id)]) []"
        "object [(''id'', JStr sample_id)]"]
    delete_unresolved_is_notFound [OF sample_mongoose_ok,
      of sample_db "sample_request (object [(''id'', JStr sample_id)]) []"
        "object [(''id'', JStr sample_id)]"]
    hasAny_sample(2) [of "object [(''id'', JStr sample_id)]" "[]"] i
  show ?thesis
    by (simp add: sample_mongoose_ok sample_req_body)
qed

text \<open>
  Claim C7 as stated fails on the mock server: it has no stored record, so no identifier
  resolves, and delete of a well-formed identifier is answered with 200 and
  \<open>deleted: true\<close>, with no error entry.
\<close>

theorem mock_delete_counterexample:
  "status (mock_app MockDelete 0 sample_Number
      (sample_request (object [(''id'', JStr sample_id)]) [])) = 200
   \<and> errorKeys (mock_app MockDelete 0 sample_Number
      (sample_request (object [(''id'', JStr sample_id)]) [])) = []
   \<and> getProp (json_body (mock_app MockDelete 0 sample_Number
      (sample_request (object [(''id'', JStr sample_id)]) []))) ''deleted'' = JBool True"
proof -
  have a: "mock_auth (sample_request b q) = sample_request b q" for b q
    by (simp add: mock_auth_def sample_request_def sample_user_def)
  have i: "\<not> falsy (getProp (object [(''id'', JStr sample_id)]) ''id'')"
    by (simp add: getProp_object_Cons sample_id_def)
  note r = mock_delete_ok [OF hasAny_sample(2) sample_req_body i]
  show ?thesis
    by (simp add: mock_app_def a r res_json_def status_res_status_json errorKeys_mock
        json_body_res_status_json getProp_mock_payload)
      (simp add: getProp_def object_def)
qed

section \<open>Update\<close>

lemma getProp_assign_other:
  "k \<noteq> k' \<Longrightarrow> getProp (assign (lit k') v b) k = getProp b k"
  by (simp add: getProp_def)

lemma getProp_assign_same: "getProp (assign (lit k) v b) k = v"
  by (simp add: getProp_def)

lemma mock_update_validate_ignores_state:
  "mock_update_validate (assign (lit ''state'') v b) = mock_update_validate b"
  by (simp add: mock_update_validate_def getProp_assign_other)

lemma mock_update_ignores_state:
  "mock_update (req\<lparr>req_body := map_option (assign (lit ''state'') v) (req_body req)\<rparr>)
     = mock_update req"
  by (cases "req_body req")
    (simp_all add: mock_update_def mock_update_validate_ignores_state hasAnyProfile_def
      getProp_assign_other Let_def split: option.split)

lemma mock_update_ok:
  assumes "hasAnyProfile req [PROFILES_OWNER, PROFILES_AUTHORITIES]"
    and "req_body req = Some dtoIn"
    and "\<not> falsy (getProp dtoIn ''id'')"
    and "getProp dtoIn ''name'' = JStr s" and "trim s \<noteq> []"
  shows "mock_update req = res_json (mock_buildResponse
          (Some (object [(''awid'', AWID),
                         (''id'', getProp dtoIn ''id''),
                         (''name'', JStr (trim s)),
                         (''state'', str ''active''),
                         (''ownerUuIdentity'', JStr (uuIdentity (req_user req)))]))
          None)"
  using assms trim_nonempty [of s] by (simp add: mock_update_def mock_update_validate_def)

lemma mock_update_success_state:
  assumes "is2xx (status (mock_update req))"
  shows "getProp (json_body (mock_update req)) ''state'' = str ''active''"
proof -
  from assms have h: "hasAnyProfile req [PROFILES_OWNER, PROFILES_AUTHORITIES]"
    by (auto simp: mock_update_def status_res_status_json is2xx_def split: if_splits)
  from assms h obtain dtoIn where b: "req_body req = Some dtoIn"
    by (cases "req_body req") (auto simp: mock_update_def uncaught_TypeError_def is2xx_def)
  from assms h b have v: "mock_update_validate dtoIn = []"
    by (auto simp: mock_update_def Let_def status_res_status_json is2xx_def split: if_splits)
  from assms h b v obtain t where t: "method_trim (getProp dtoIn ''name'') = Some t"
    by (cases "method_trim (getProp dtoIn ''name'')")
      (auto simp: mock_update_def Let_def uncaught_TypeError_def is2xx_def)
  from h b v t have "mock_update req = res_json (mock_buildResponse
          (Some (object [(''awid'', AWID),
                         (''id'', getProp dtoIn ''id''),
                         (''name'', JStr t),
                         (''state'', str ''active''),
                         (''ownerUuIdentity'', JStr (uuIdentity (req_user req)))]))
          None)"
    by (simp add: mock_update_def)
  then show ?thesis
    by (simp add: res_json_def json_body_res_status_json getProp_mock_payload)
      (simp add: getProp_def object_def)
qed

lemma mongo_update_validate_keys:
  "map fst (mongo_update_validate env idParam body) =
     (if \<not> isValidObjectId env idParam then [lit ''shoppingList/update/invalidId''] else [])
     @ (if getProp body ''name'' \<noteq> JUndefined
           \<and> (typeof (getProp body ''name'') \<noteq> ''string''
                \<or> method_trim (getProp body ''name'') = Some [])
        then [lit ''shoppingList/update/invalidName''] else [])
     @ (if getProp body ''state'' \<noteq> JUndefined
           \<and> getProp body ''state'' \<notin> set [str ''active'', str ''archived'']
        then [lit ''shoppingList/update/invalidState''] else [])"
  by (simp add: mongo_update_validate_def Let_def assign_def update_keys)

lemma mongo_update_rejected:
  assumes "mongo_update_validate env idParam body \<noteq> []"
  shows "mongo_update env fault now d idParam (Some body) =
     (res_status_json 400 (mongo_buildResponse []
        (Some (mongo_update_validate env idParam body))), d)"
  using assms by (simp add: mongo_update_def Let_def)

lemma list_all_update:
  "list_all P d \<Longrightarrow> P (k, v) \<Longrightarrow> list_all P (AList.update k v d)"
  by (induction d) auto

lemma findByIdAndUpdate_states:
  assumes "ShoppingList_findByIdAndUpdate env fault now d idParam updates = Inr (x, d')"
    and "list_all spec_state_in_enum d"
  shows "list_all spec_state_in_enum d'"
proof -
  from assms(1) obtain k where k: "castObjectId env idParam = Some k"
    by (auto simp: ShoppingList_findByIdAndUpdate_def split: if_splits option.splits)
  show ?thesis
  proof (cases "map_of d k")
    case None
    with assms k show ?thesis
      by (auto simp: ShoppingList_findByIdAndUpdate_def Let_def split: if_splits option.splits)
  next
    case (Some l)
    then have "(k, l) \<in> set d" by (rule map_of_SomeD)
    with assms(2) have old: "list_state l \<in> set state_enum"
      by (auto simp: list_all_iff spec_state_in_enum_def)
    from assms k Some old show ?thesis
      by (auto simp: ShoppingList_findByIdAndUpdate_def Let_def spec_state_in_enum_def
          intro!: list_all_update split: if_splits option.splits)
  qed
qed

lemma mongo_update_states:
  assumes "list_all spec_state_in_enum d"
  shows "list_all spec_state_in_enum (snd (mongo_update env fault now d idParam reqBody))"
proof (cases reqBody)
  case None
  with assms show ?thesis by (simp add: mongo_update_def)
next
  case (Some body)
  have "list_all spec_state_in_enum (snd (mongo_update env fault now d idParam (Some body)))"
  proof (cases "mongo_update_validate env idParam body = []")
  case False
  with assms show ?thesis by (simp add: mongo_update_rejected)
next
  case True
  then have u: "mongo_update env fault now d idParam (Some body)
      = mongo_update_try env fault now d idParam body []"
    by (simp add: mongo_update_def)
  show ?thesis
    unfolding u mongo_update_try_def Let_def
    using assms
    by (auto split: option.splits sum.splits prod.splits if_splits
        dest: findByIdAndUpdate_states)
  qed
  with Some show ?thesis by simp
qed

lemma trim_Milk_plain: "trim (lit ''Milk'') = lit ''Milk''"
  by (simp add: trim_def lit_def isWhiteSpace_def)

lemma sample_update_body_props:
  "\<not> falsy (getProp sample_update_body ''id'')"
  "getProp sample_update_body ''name'' = JStr (lit ''Milk'')"
  "getProp sample_update_body ''state'' = str ''deleted''"
  by (simp_all add: sample_update_body_def getProp_object_Cons str_def sample_id_def)

text \<open>
  Claim C5, amended. In the database-backed server, every update request that supplies a
  state other than \<open>active\<close> and \<open>archived\<close> is rejected with status 400, its error
  map has the key \<open>shoppingList/update/invalidState\<close>, and the collection is unchanged;
  and no update request at all takes a collection whose states are in the enum to one
  with a state outside it. The update of the mock server does not read the state: its
  response is the same whatever state the body supplies, and a successful response
  reports the state \<open>active\<close>.
\<close>

theorem update_rejects_unknown_state:
  assumes "getProp body ''state'' = v"
    and "v \<noteq> JUndefined" and "v \<noteq> str ''active''" and "v \<noteq> str ''archived''"
  shows "status (fst (mongo_update env fault now d idParam (Some body))) = 400
    \<and> lit ''shoppingList/update/invalidState''
        \<in> set (errorKeys (fst (mongo_update env fault now d idParam (Some body))))
    \<and> snd (mongo_update env fault now d idParam (Some body)) = d
    \<and> (list_all spec_state_in_enum d0 \<longrightarrow>
         list_all spec_state_in_enum (snd (mongo_update env fault now d0 idParam reqBody0)))
    \<and> mock_update (req\<lparr>req_body := map_option (assign (lit ''state'') v) (req_body req)\<rparr>)
        = mock_update req
    \<and> (is2xx (status (mock_update req)) \<longrightarrow>
         getProp (json_body (mock_update req)) ''state'' = str ''active'')"
proof -
  from assms have k: "lit ''shoppingList/update/invalidState''
      \<in> set (map fst (mongo_update_validate env idParam body))"
    by (simp add: mongo_update_validate_keys)
  then have ne: "mongo_update_validate env idParam body \<noteq> []"
    by auto
  note r = mongo_update_rejected [OF ne, of fault now d]
  show ?thesis
    using k
    by (simp add: r status_res_status_json errorKeys_mongo mongo_update_states
        mock_update_ignores_state mock_update_success_state)
qed

lemma sample_db_states: "list_all spec_state_in_enum sample_db"
  by (simp add: sample_db_def spec_state_in_enum_def sample_list_def state_enum_def)

text \<open>The scenario \<open>state: "deleted"\<close> on the sample collection.\<close>

theorem update_rejects_unknown_state_witness:
  "getProp (object [(''state'', str ''deleted'')]) ''state'' = str ''deleted''
   \<and> str ''deleted'' \<noteq> JUndefined \<and> str ''deleted'' \<noteq> str ''active''
   \<and> str ''deleted'' \<noteq> str ''archived''
   \<and> status (fst (mongo_update sample_mongoose False 2 sample_db sample_id
         (Some (object [(''state'', str ''deleted'')])))) = 400
   \<and> snd (mongo_update sample_mongoose False 2 sample_db sample_id
         (Some (object [(''state'', str ''deleted'')]))) = sample_db
   \<and> list_all spec_state_in_enum sample_db
   \<and> list_all spec_state_in_enum (snd (mongo_update sample_mongoose False 2 sample_db sample_id
         (Some (object [(''state'', str ''archived'')]))))
   \<and> is2xx (status (mock_update (sample_request sample_update_body [])))
   \<and> getProp (json_body (mock_update (sample_request sample_update_body []))) ''state''
       = str ''active''"
proof -
  have g: "getProp (object [(''state'', str ''deleted'')]) ''state'' = str ''deleted''"
    by (simp add: getProp_object_Cons)
  have n1: "str ''deleted'' \<noteq> JUndefined" by (simp add: str_def)
  have n2: "str ''deleted'' \<noteq> str ''active''" by (simp add: str_def)
  have n3: "str ''deleted'' \<noteq> str ''archived''" by (simp add: str_def)
  have t: "trim (lit ''Milk'') \<noteq> []"
    by (simp add: trim_Milk_plain)
  have ok: "is2xx (status (mock_update (sample_request sample_update_body [])))"
    by (simp add: mock_update_ok [OF hasAny_sample(2) sample_req_body sample_update_body_props(1)
          sample_update_body_props(2) t] res_json_def status_res_status_json is2xx_def)
  from update_rejects_unknown_state [OF g n1 n2 n3, of sample_mongoose False 2 sample_db
      sample_id sample_db "Some (object [(''state'', str ''archived'')])"
      "sample_request sample_update_body []"]
    sample_db_states ok
  show ?thesis
    by (simp add: g n1 n2 n3)
qed

text \<open>
  Claim C5 as stated fails on the mock server: an update that supplies the state
  \<open>deleted\<close> (with an id and a valid name) is answered with 200 and an empty error map.
\<close>

theorem mock_update_state_counterexample:
  "req_body (sample_request sample_update_body []) = Some sample_update_body
   \<and> getProp sample_update_body ''state'' = str ''deleted''
   \<and> status (mock_app MockUpdate 0 sample_Number (sample_request sample_update_body [])) = 200
   \<and> errorKeys (mock_app MockUpdate 0 sample_Number (sample_request sample_update_body [])) = []"
proof -
  have a: "mock_auth (sample_request b q) = sample_request b q" for b q
    by (simp add: mock_auth_def sample_request_def sample_user_def)
  have t: "trim (lit ''Milk'') \<noteq> []"
    by (simp add: trim_Milk_plain)
  note r = mock_update_ok [OF hasAny_sample(2) sample_req_body sample_update_body_props(1)
      sample_update_body_props(2) t]
  show ?thesis
    by (simp add: mock_app_def a r res_json_def status_res_status_json errorKeys_mock
        sample_update_body_props(3) sample_req_body)
qed








lemma getProp_object_Nil: "getProp (object []) k = JUndefined"
  by (simp add: getProp_def object_def)




lemma mongo_update_validate_absent:
  assumes "getProp body ''name'' = JUndefined" and "getProp body ''state'' = JUndefined"
    and "isValidObjectId env idParam"
  shows "mongo_update_validate env idParam body = []"
  using assms by (simp add: mongo_update_validate_def)

lemma findByIdAndUpdate_empty:
  assumes "castObjectId env idParam = Some k" and "map_of d k = Some l" and "\<not> fault"
  shows "ShoppingList_findByIdAndUpdate env fault now d idParam [] =
     Inr (Some (k, l\<lparr>list_updatedAt := now\<rparr>), AList.update k (l\<lparr>list_updatedAt := now\<rparr>) d)"
  using assms by (simp add: ShoppingList_findByIdAndUpdate_def Let_def)

lemma mongo_update_absent:
  assumes "getProp body ''name'' = JUndefined" and "getProp body ''state'' = JUndefined"
    and "isValidObjectId env idParam" and "castObjectId env idParam = Some k"
    and "map_of d k = Some l" and "\<not> fault"
  shows "mongo_update env fault now d idParam (Some body) =
     (res_json (mongo_buildResponse (list_dtoOut (k, l\<lparr>list_updatedAt := now\<rparr>)) None),
      AList.update k (l\<lparr>list_updatedAt := now\<rparr>) d)"
  using assms
  by (simp add: mongo_update_def mongo_update_validate_absent mongo_update_try_def
      findByIdAndUpdate_empty)

text \<open>
  Claim C10. In the database-backed server, for every update request whose id is
  well-formed and resolves to a stored record and whose body supplies neither name nor
  state, validation passes and (the store call succeeding) the response has status 200, an
  empty error map, and the name, state, ownerUuIdentity, members and items of the record
  as they were; the stored record changes in \<open>updatedAt\<close> only, and no other record
  changes.
\<close>

theorem update_without_name_and_state:
  assumes "getProp body ''name'' = JUndefined" and "getProp body ''state'' = JUndefined"
    and "isValidObjectId env idParam" and "castObjectId env idParam = Some k"
    and "map_of d k = Some l" and "\<not> fault"
  shows "mongo_update_validate env idParam body = []
    \<and> status (fst (mongo_update env fault now d idParam (Some body))) = 200
    \<and> getProp (json_body (fst (mongo_update env fault now d idParam (Some body)))) ''name''
        = JStr (list_name l)
    \<and> getProp (json_body (fst (mongo_update env fault now d idParam (Some body)))) ''state''
        = JStr (list_state l)
    \<and> getProp (json_body (fst (mongo_update env fault now d idParam (Some body)))) ''ownerUuIdentity''
        = JStr (list_ownerUuIdentity l)
    \<and> getProp (json_body (fst (mongo_update env fault now d idParam (Some body)))) ''members''
        = JArr (map member_json (list_members l))
    \<and> getProp (json_body (fst (mongo_update env fault now d idParam (Some body)))) ''items''
        = JArr (map item_json (list_items l))
    \<and> errorMapOf (fst (mongo_update env fault now d idParam (Some body))) = Some []
    \<and> map_of (snd (mongo_update env fault now d idParam (Some body)))
        = (map_of d)(k \<mapsto> l\<lparr>list_updatedAt := now\<rparr>)"
proof -
  note r = mongo_update_absent [OF assms, of now]
  show ?thesis
    by (simp add: r mongo_update_validate_absent [OF assms(1) assms(2) assms(3)]
        res_json_def status_res_status_json json_body_res_status_json errorMapOf_mongo
        getProp_mongo_payload getProp_list_dtoOut update_conv')
qed

lemma sample_db_lookup: "map_of sample_db sample_id = Some sample_list"
  by (simp add: sample_db_def)

text \<open>An update with the empty body on the sample collection.\<close>

theorem update_without_name_and_state_witness:
  "getProp (object []) ''name'' = JUndefined \<and> getProp (object []) ''state'' = JUndefined
   \<and> isValidObjectId sample_mongoose sample_id
   \<and> castObjectId sample_mongoose sample_id = Some sample_id
   \<and> map_of sample_db sample_id = Some sample_list
   \<and> status (fst (mongo_update sample_mongoose False 2 sample_db sample_id (Some (object [])))) = 200
   \<and> getProp (json_body (fst (mongo_update sample_mongoose False 2 sample_db sample_id
        (Some (object []))))) ''name'' = str ''Old name''
   \<and> getProp (json_body (fst (mongo_update sample_mongoose False 2 sample_db sample_id
        (Some (object []))))) ''state'' = str ''active''
   \<and> map_of (snd (mongo_update sample_mongoose False 2 sample_db sample_id (Some (object []))))
        sample_id = Some (sample_list\<lparr>list_updatedAt := 2\<rparr>)"
proof -
  have f: "\<not> False" by simp
  from update_without_name_and_state [OF getProp_object_Nil getProp_object_Nil
      sample_mongoose_ok sample_db_lookup f, of 2]
  show ?thesis
    by (simp add: getProp_object_Nil sample_mongoose_ok sample_db_lookup)
      (simp add: sample_list_def str_def)
qed

end
